theory Spec2Isabelle
  imports Main
begin

section \<open>Python values\<close>

text \<open>
  The task manager is written in Python, where a field of a record can hold a value of
  any type: a file edited by hand can give a task the priority \<open>3\<close> or the id \<open>null\<close>,
  and the code tests types at run time (\<open>isinstance\<close>). The model therefore has one type
  of run-time values. Text is a list of characters read as code points below 256;
  numbers are integers (JSON numbers with a fraction are outside the model).
\<close>

datatype Priority = HIGH | MEDIUM | LOW

datatype Status = ACTIVE | COMPLETED

datatype pyval =
    PNone
  | PBool bool
  | PInt int
  | PStr string
  | PList "pyval list"
  | PDict "(string \<times> pyval) list"
  | PPriority Priority
  | PStatus Status

text \<open>The \<open>value\<close> attribute of the two enumerations (models.py, lines 14 to 24).\<close>

fun priority_value :: "Priority \<Rightarrow> string" where
  "priority_value HIGH = ''high''"
| "priority_value MEDIUM = ''medium''"
| "priority_value LOW = ''low''"

fun status_value :: "Status \<Rightarrow> string" where
  "status_value ACTIVE = ''active''"
| "status_value COMPLETED = ''completed''"

text \<open>
  Python's \<open>==\<close> on these values: \<open>True == 1\<close> holds, two dictionaries are equal when
  they have the same keys with equal values in any order (an association list that stands
  for a dictionary has distinct keys), an enumeration member equals only itself, and values
  of different kinds are unequal.
\<close>

lemma size_dict_value [termination_simp]:
  "(k, v) \<in> set d \<Longrightarrow> size v < Suc (size_list (size_prod (\<lambda>_. 0) size) d)"
  by (induction d) auto

fun py_eq :: "pyval \<Rightarrow> pyval \<Rightarrow> bool" where
  "py_eq PNone PNone = True"
| "py_eq (PBool a) (PBool b) = (a = b)"
| "py_eq (PBool a) (PInt j) = ((if a then 1 else 0) = j)"
| "py_eq (PInt i) (PBool b) = (i = (if b then 1 else 0))"
| "py_eq (PInt i) (PInt j) = (i = j)"
| "py_eq (PStr s) (PStr t) = (s = t)"
| "py_eq (PList xs) (PList ys) = list_all2 py_eq xs ys"
| "py_eq (PDict a) (PDict b) =
     (length a = length b \<and>
      list_all (\<lambda>(k, v). case map_of b k of None \<Rightarrow> False | Some w \<Rightarrow> py_eq v w) a)"
| "py_eq (PPriority p) (PPriority q) = (p = q)"
| "py_eq (PStatus s) (PStatus t) = (s = t)"
| "py_eq _ _ = False"


section \<open>Text\<close>

text \<open>
  \<open>str.strip()\<close> removes the white space at both ends and \<open>str.lower()\<close> maps upper
  case to lower case. On code points below 256 Python's white space is the set below,
  and the upper-case letters are A to Z and the accented capitals 192 to 222 without the
  multiplication sign 215; each has its lower-case form 32 places higher.
\<close>

definition py_isspace :: "char \<Rightarrow> bool" where
  "py_isspace c =
     (let n = (of_char c :: nat)
      in (9 \<le> n \<and> n \<le> 13) \<or> (28 \<le> n \<and> n \<le> 32) \<or> n = 133 \<or> n = 160)"

definition py_strip :: "string \<Rightarrow> string" where
  "py_strip s = rev (dropWhile py_isspace (rev (dropWhile py_isspace s)))"

definition py_lower_char :: "char \<Rightarrow> char" where
  "py_lower_char c =
     (let n = (of_char c :: nat)
      in if (65 \<le> n \<and> n \<le> 90) \<or> (192 \<le> n \<and> n \<le> 222 \<and> n \<noteq> 215)
         then char_of (n + 32) else c)"

definition py_lower :: "string \<Rightarrow> string" where
  "py_lower s = map py_lower_char s"

text \<open>\<open>k in s\<close> for two texts: \<open>k\<close> occurs in \<open>s\<close> as a contiguous piece.\<close>

fun starts_with :: "string \<Rightarrow> string \<Rightarrow> bool" where
  "starts_with [] s = True"
| "starts_with (k # ks) [] = False"
| "starts_with (k # ks) (c # cs) = (k = c \<and> starts_with ks cs)"

fun py_substr :: "string \<Rightarrow> string \<Rightarrow> bool" where
  "py_substr k [] = (k = [])"
| "py_substr k (c # cs) = (starts_with k (c # cs) \<or> py_substr k cs)"

section \<open>Exceptions\<close>

text \<open>
  Every \<open>raise\<close> of the source is a value. The constructor is the exception's class;
  its argument stands for the message, one constructor for each message the source
  writes:
  \<^item> \<open>InvalidSchema\<close>: "Invalid JSON schema: expected a list of tasks";
  \<^item> \<open>InvalidFormat e\<close>: "Failed to load tasks: invalid JSON format - e", where \<open>e\<close> is
    the decoder's message;
  \<^item> \<open>LoadFailed e\<close>: "Failed to load tasks: e" and \<open>SaveFailed e\<close>: "Failed to save
    tasks: e", where \<open>e\<close> is the operating system's error;
  \<^item> \<open>AlreadyExists i\<close>: "Task with ID i already exists";
  \<^item> \<open>TaskNotFoundError i\<close>: "Task with ID i not found";
  \<^item> \<open>KeyError\<close> carries its text; \<open>ValueError\<close> carries the rejected value.
  \<open>TypeError\<close> and \<open>AttributeError\<close> are raised by Python itself when a value of
  the wrong kind is used, \<open>UnicodeDecodeError\<close> when the bytes of a file are read as
  text and are not text.
\<close>

datatype os_error =
    FileNotFoundError
  | IsADirectoryError
  | NotADirectoryError
  | FileExistsError
  | SameFileError
  | Fault

datatype storage_message =
    InvalidSchema
  | InvalidFormat string
  | LoadFailed os_error
  | SaveFailed os_error
  | AlreadyExists pyval

datatype value_message = InvalidPriority string | InvalidStatus string

datatype exn =
    StorageError storage_message
  | TaskNotFoundError pyval
  | KeyError string
  | ValueError value_message
  | TypeError
  | AttributeError
  | OSError os_error
  | JSONDecodeError string
  | UnicodeDecodeError

section \<open>The world outside the program\<close>

text \<open>
  The code calls the \<open>json\<close> library, the file system, \<open>uuid.uuid4\<close> and
  \<open>datetime.now\<close>. None of them is part of the repository, so they are parameters:
  \<^item> \<open>json_loads\<close> is \<open>json.loads\<close>: the parsed value, or the decoder's message
    when the text is not JSON;
  \<^item> \<open>json_dump\<close> is \<open>json.dump(data, f, indent=2)\<close>: the text it writes, or
    the part written before it meets a value that JSON cannot hold;
  \<^item> \<open>fault\<close> says which file-system calls the operating system refuses (a full
    disk, a missing permission), by kind of call and path; a refused write may leave
    the first \<open>k\<close> characters in the file;
  \<^item> \<open>uuid4 i\<close> and \<open>now i\<close> are the identifier and the time stamp that a task
    built for position \<open>i\<close> of a list receives when it has none.
\<close>

type_synonym path = "string list"

datatype fs_op = OpMkdir | OpOpen | OpWrite | OpRead | OpRename | OpUnlink | OpCopy

datatype fault = Refused | Torn nat

datatype dump_result = Dumped string | NotSerializable string

record env =
  json_loads :: "string \<Rightarrow> string + pyval"
  json_dump :: "pyval \<Rightarrow> dump_result"
  fault :: "fs_op \<Rightarrow> path \<Rightarrow> fault option"
  uuid4 :: "nat \<Rightarrow> string"
  now :: "nat \<Rightarrow> string"

section \<open>Tasks (models.py)\<close>

record task =
  title :: pyval
  description :: pyval
  priority :: pyval
  due_date :: pyval
  status :: pyval
  id' :: pyval
  created_at :: pyval
  completed_at :: pyval

text \<open>
  \<open>__post_init__\<close> (models.py, lines 57 to 91): a missing id and a missing creation
  time are generated, a textual title is stripped, a textual priority or status is
  lowered and replaced by the member of the enumeration, or rejected.
\<close>

definition post_init_priority :: "task \<Rightarrow> exn + task" where
  "post_init_priority t =
     (case priority t of
        PStr s \<Rightarrow>
          (let priority_str = py_lower s
           in if priority_str = ''high'' then Inr (t\<lparr>priority := PPriority HIGH\<rparr>)
              else if priority_str = ''medium'' then Inr (t\<lparr>priority := PPriority MEDIUM\<rparr>)
              else if priority_str = ''low'' then Inr (t\<lparr>priority := PPriority LOW\<rparr>)
              else Inl (ValueError (InvalidPriority s)))
      | _ \<Rightarrow> Inr t)"

definition post_init_status :: "task \<Rightarrow> exn + task" where
  "post_init_status t =
     (case status t of
        PStr s \<Rightarrow>
          (let status_str = py_lower s
           in if status_str = ''active'' then Inr (t\<lparr>status := PStatus ACTIVE\<rparr>)
              else if status_str = ''completed'' then Inr (t\<lparr>status := PStatus COMPLETED\<rparr>)
              else Inl (ValueError (InvalidStatus s)))
      | _ \<Rightarrow> Inr t)"

definition post_init :: "env \<Rightarrow> nat \<Rightarrow> task \<Rightarrow> exn + task" where
  "post_init E i t =
     (let t1 = (if id' t = PNone then t\<lparr>id' := PStr (uuid4 E i)\<rparr> else t);
          t2 = (if created_at t1 = PNone then t1\<lparr>created_at := PStr (now E i)\<rparr> else t1);
          t3 = (case title t2 of PStr s \<Rightarrow> t2\<lparr>title := PStr (py_strip s)\<rparr> | _ \<Rightarrow> t2)
      in case post_init_priority t3 of
           Inl e \<Rightarrow> Inl e
         | Inr t4 \<Rightarrow> post_init_status t4)"

text \<open>\<open>to_dict\<close> (models.py, lines 132 to 148); the keys are in the order of the source.\<close>

definition to_dict :: "task \<Rightarrow> pyval" where
  "to_dict t = PDict
     [(''id'', id' t),
      (''title'', title t),
      (''description'', description t),
      (''priority'', (case priority t of PPriority p \<Rightarrow> PStr (priority_value p) | v \<Rightarrow> v)),
      (''due_date'', due_date t),
      (''status'', (case status t of PStatus s \<Rightarrow> PStr (status_value s) | v \<Rightarrow> v)),
      (''created_at'', created_at t),
      (''completed_at'', completed_at t)]"

text \<open>
  \<open>'title' in data\<close>: a key of a dictionary, an element of a list, a piece of a text;
  any other value is not a container and Python raises \<open>TypeError\<close>.
\<close>

fun py_in :: "string \<Rightarrow> pyval \<Rightarrow> exn + bool" where
  "py_in k (PDict d) = Inr (k \<in> set (map fst d))"
| "py_in k (PList xs) = Inr (list_ex (\<lambda>x. py_eq (PStr k) x) xs)"
| "py_in k (PStr s) = Inr (py_substr k s)"
| "py_in k _ = Inl TypeError"

text \<open>\<open>data.get(k, default)\<close> and \<open>data[k]\<close> on a dictionary.\<close>

definition dict_get :: "(string \<times> pyval) list \<Rightarrow> string \<Rightarrow> pyval \<Rightarrow> pyval" where
  "dict_get d k dflt = (case map_of d k of None \<Rightarrow> dflt | Some v \<Rightarrow> v)"

definition dict_item :: "(string \<times> pyval) list \<Rightarrow> string \<Rightarrow> exn + pyval" where
  "dict_item d k = (case map_of d k of None \<Rightarrow> Inl (KeyError k) | Some v \<Rightarrow> Inr v)"

text \<open>
  \<open>Task.from_dict\<close> (models.py, lines 150 to 181). The first method called on
  \<open>data\<close> is \<open>get\<close>, which only a dictionary has: a list or a text that passed the
  test for \<open>'title'\<close> raises \<open>AttributeError\<close> there.
\<close>

definition from_dict :: "env \<Rightarrow> nat \<Rightarrow> pyval \<Rightarrow> exn + task" where
  "from_dict E i data =
     (case py_in ''title'' data of
        Inl e \<Rightarrow> Inl e
      | Inr False \<Rightarrow> Inl (KeyError ''Missing required field: title'')
      | Inr True \<Rightarrow>
          (case data of
             PDict d \<Rightarrow>
               (case dict_item d ''title'' of
                  Inl e \<Rightarrow> Inl e
                | Inr ttl \<Rightarrow>
                    post_init E i
                      \<lparr>title = ttl,
                       description = dict_get d ''description'' PNone,
                       priority = dict_get d ''priority'' (PStr ''medium''),
                       due_date = dict_get d ''due_date'' PNone,
                       status = dict_get d ''status'' (PStr ''active''),
                       id' = dict_get d ''id'' PNone,
                       created_at = dict_get d ''created_at'' PNone,
                       completed_at = dict_get d ''completed_at'' PNone\<rparr>)
           | _ \<Rightarrow> Inl AttributeError))"


section \<open>The file system\<close>

text \<open>
  A file system is the content of every file and the set of directories; a path is the
  list of its components from the root, and the root is always a directory. The content
  of a file is a text, or bytes that are not a text in the encoding of the machine (what
  a torn copy leaves of such bytes is kept as bytes). Each call either does its work or
  fails with an \<open>OSError\<close>, for its own reason (a missing file, a directory in the
  way) or because the environment refuses it; reading bytes that are not a text raises
  \<open>UnicodeDecodeError\<close>.
\<close>

datatype content = Text string | Binary string

record filesystem =
  files :: "path \<rightharpoonup> content"
  dirs :: "path set"

type_synonym 'a outcome = "(exn + 'a) \<times> filesystem"

definition is_dir :: "filesystem \<Rightarrow> path \<Rightarrow> bool" where
  "is_dir fs p = (p = [] \<or> p \<in> dirs fs)"

definition path_exists :: "filesystem \<Rightarrow> path \<Rightarrow> bool" where
  "path_exists fs p = (is_dir fs p \<or> files fs p \<noteq> None)"

definition parent :: "path \<Rightarrow> path" where
  "parent p = butlast p"

definition name :: "path \<Rightarrow> string" where
  "name p = (if p = [] then [] else last p)"

text \<open>\<open>self._file_path.parent / f"{self._file_path.name}.tmp"\<close>, and the same for the backup.\<close>

definition sibling :: "path \<Rightarrow> string \<Rightarrow> path" where
  "sibling p suffix = parent p @ [name p @ suffix]"

text \<open>
  \<open>mkdir(parents=True, exist_ok=True)\<close>: every missing directory on the way is made,
  from the root down; a directory that is there is left alone, a file in the way is an
  error.
\<close>

definition ancestors_and_self :: "path \<Rightarrow> path list" where
  "ancestors_and_self d = map (\<lambda>n. take n d) [1..<Suc (length d)]"

fun mkdir_each :: "env \<Rightarrow> filesystem \<Rightarrow> path list \<Rightarrow> (os_error + unit) \<times> filesystem" where
  "mkdir_each E fs [] = (Inr (), fs)"
| "mkdir_each E fs (d # ds) =
     (if is_dir fs d then mkdir_each E fs ds
      else if files fs d \<noteq> None
        then (Inl (if ds = [] then FileExistsError else NotADirectoryError), fs)
      else if fault E OpMkdir d \<noteq> None then (Inl Fault, fs)
      else mkdir_each E (fs\<lparr>dirs := insert d (dirs fs)\<rparr>) ds)"

definition mkdir_parents :: "env \<Rightarrow> filesystem \<Rightarrow> path \<Rightarrow> (os_error + unit) \<times> filesystem" where
  "mkdir_parents E fs d = mkdir_each E fs (ancestors_and_self d)"

definition read_text :: "env \<Rightarrow> filesystem \<Rightarrow> path \<Rightarrow> exn + string" where
  "read_text E fs p =
     (if fault E OpRead p \<noteq> None then Inl (OSError Fault)
      else case files fs p of
             Some (Text c) \<Rightarrow> Inr c
           | Some (Binary b) \<Rightarrow> Inl UnicodeDecodeError
           | None \<Rightarrow>
               Inl (OSError (if is_dir fs p then IsADirectoryError else FileNotFoundError)))"

text \<open>
  Opening a file for writing empties it; the text follows. \<open>open_w\<close> is the
  \<open>open(path, 'w')\<close>, \<open>torn\<close> is what a refused write leaves of the text.
\<close>

definition open_w :: "env \<Rightarrow> filesystem \<Rightarrow> path \<Rightarrow> (os_error + unit) \<times> filesystem" where
  "open_w E fs p =
     (if fault E OpOpen p \<noteq> None then (Inl Fault, fs)
      else if is_dir fs p then (Inl IsADirectoryError, fs)
      else if \<not> is_dir fs (parent p)
        then (Inl (if files fs (parent p) \<noteq> None then NotADirectoryError
                   else FileNotFoundError), fs)
      else (Inr (), fs\<lparr>files := (files fs)(p \<mapsto> Text [])\<rparr>))"

fun torn :: "fault \<Rightarrow> string \<Rightarrow> string" where
  "torn Refused s = []"
| "torn (Torn k) s = take k s"

fun torn_content :: "fault \<Rightarrow> content \<Rightarrow> content" where
  "torn_content f (Text s) = Text (torn f s)"
| "torn_content f (Binary b) = Binary (torn f b)"

definition write_text :: "env \<Rightarrow> filesystem \<Rightarrow> path \<Rightarrow> string \<Rightarrow> (os_error + unit) \<times> filesystem" where
  "write_text E fs p s =
     (case open_w E fs p of
        (Inl e, fs1) \<Rightarrow> (Inl e, fs1)
      | (Inr u, fs1) \<Rightarrow>
          (case fault E OpWrite p of
             Some f \<Rightarrow> (Inl Fault, fs1\<lparr>files := (files fs1)(p \<mapsto> Text (torn f s))\<rparr>)
           | None \<Rightarrow> (Inr (), fs1\<lparr>files := (files fs1)(p \<mapsto> Text s)\<rparr>)))"

text \<open>
  \<open>with open(temp_path, 'w') as f: json.dump(data, f, indent=2)\<close>: a value that JSON
  cannot hold stops the dump with a \<open>TypeError\<close> after part of the text.
\<close>

definition write_json :: "env \<Rightarrow> filesystem \<Rightarrow> path \<Rightarrow> pyval \<Rightarrow> unit outcome" where
  "write_json E fs p data =
     (case open_w E fs p of
        (Inl e, fs1) \<Rightarrow> (Inl (OSError e), fs1)
      | (Inr u, fs1) \<Rightarrow>
          (case json_dump E data of
             Dumped s \<Rightarrow>
               (case fault E OpWrite p of
                  Some f \<Rightarrow>
                    (Inl (OSError Fault), fs1\<lparr>files := (files fs1)(p \<mapsto> Text (torn f s))\<rparr>)
                | None \<Rightarrow> (Inr (), fs1\<lparr>files := (files fs1)(p \<mapsto> Text s)\<rparr>))
           | NotSerializable s \<Rightarrow>
               (case fault E OpWrite p of
                  Some f \<Rightarrow>
                    (Inl (OSError Fault), fs1\<lparr>files := (files fs1)(p \<mapsto> Text (torn f s))\<rparr>)
                | None \<Rightarrow> (Inl TypeError, fs1\<lparr>files := (files fs1)(p \<mapsto> Text s)\<rparr>))))"

text \<open>\<open>src.rename(dst)\<close> replaces a file at \<open>dst\<close> in one step.\<close>

definition rename :: "env \<Rightarrow> filesystem \<Rightarrow> path \<Rightarrow> path \<Rightarrow> (os_error + unit) \<times> filesystem" where
  "rename E fs src dst =
     (if fault E OpRename src \<noteq> None then (Inl Fault, fs)
      else case files fs src of
             None \<Rightarrow> (Inl FileNotFoundError, fs)
           | Some c \<Rightarrow>
               if is_dir fs dst then (Inl IsADirectoryError, fs)
               else if \<not> is_dir fs (parent dst) then (Inl FileNotFoundError, fs)
               else (Inr (), fs\<lparr>files := ((files fs)(src := None))(dst \<mapsto> c)\<rparr>))"

definition unlink :: "env \<Rightarrow> filesystem \<Rightarrow> path \<Rightarrow> (os_error + unit) \<times> filesystem" where
  "unlink E fs p =
     (if fault E OpUnlink p \<noteq> None then (Inl Fault, fs)
      else case files fs p of
             None \<Rightarrow> (Inl (if is_dir fs p then IsADirectoryError else FileNotFoundError), fs)
           | Some c \<Rightarrow> (Inr (), fs\<lparr>files := (files fs)(p := None)\<rparr>))"

text \<open>
  \<open>shutil.copy2(src, dst)\<close>: when \<open>dst\<close> is a directory the copy goes into it, under
  the name of \<open>src\<close>.
\<close>

definition copy2 :: "env \<Rightarrow> filesystem \<Rightarrow> path \<Rightarrow> path \<Rightarrow> (os_error + unit) \<times> filesystem" where
  "copy2 E fs src dst =
     (if fault E OpCopy src = Some Refused then (Inl Fault, fs)
      else case files fs src of
             None \<Rightarrow> (Inl (if is_dir fs src then IsADirectoryError else FileNotFoundError), fs)
           | Some c \<Rightarrow>
               (let target = (if is_dir fs dst then dst @ [name src] else dst)
                in if target = src then (Inl SameFileError, fs)
                   else if is_dir fs target then (Inl IsADirectoryError, fs)
                   else if \<not> is_dir fs (parent target) then (Inl FileNotFoundError, fs)
                   else case fault E OpCopy src of
                          Some f \<Rightarrow>
                            (Inl Fault, fs\<lparr>files := (files fs)(target \<mapsto> torn_content f c)\<rparr>)
                        | None \<Rightarrow> (Inr (), fs\<lparr>files := (files fs)(target \<mapsto> c)\<rparr>)))"


section \<open>The task store (storage.py)\<close>

text \<open>
  A \<open>TaskStorage\<close> object holds one field, \<open>_file_path\<close>: the argument \<open>p\<close> of every
  operation below. An operation that writes returns its result together with the file
  system it leaves, also when it raises.
\<close>

text \<open>\<open>__init__\<close> (lines 34 to 48). Nothing is caught here: an \<open>OSError\<close> leaves as it is.\<close>

definition init :: "env \<Rightarrow> filesystem \<Rightarrow> path \<Rightarrow> unit outcome" where
  "init E fs p =
     (case mkdir_parents E fs (parent p) of
        (Inl e, fs1) \<Rightarrow> (Inl (OSError e), fs1)
      | (Inr u, fs1) \<Rightarrow>
          if \<not> path_exists fs1 p
          then (case write_text E fs1 p ''[]'' of
                  (Inl e, fs2) \<Rightarrow> (Inl (OSError e), fs2)
                | (Inr u, fs2) \<Rightarrow> (Inr (), fs2))
          else (Inr (), fs1))"

text \<open>\<open>_validate_schema\<close> (lines 50 to 61).\<close>

definition isinstance_list :: "pyval \<Rightarrow> bool" where
  "isinstance_list data = (case data of PList ds \<Rightarrow> True | _ \<Rightarrow> False)"

definition validate_schema :: "pyval \<Rightarrow> exn + unit" where
  "validate_schema data =
     (if \<not> isinstance_list data then Inl (StorageError InvalidSchema) else Inr ())"

text \<open>
  \<open>[Task.from_dict(task_dict) for task_dict in data]\<close>: the elements in order, stopping
  at the first that raises; \<open>i\<close> is the position of the element.
\<close>

fun from_dicts :: "env \<Rightarrow> nat \<Rightarrow> pyval list \<Rightarrow> exn + task list" where
  "from_dicts E i [] = Inr []"
| "from_dicts E i (d # ds) =
     (case from_dict E i d of
        Inl e \<Rightarrow> Inl e
      | Inr t \<Rightarrow>
          (case from_dicts E (Suc i) ds of
             Inl e \<Rightarrow> Inl e
           | Inr ts \<Rightarrow> Inr (t # ts)))"

text \<open>
  \<open>load\<close> (lines 63 to 87): \<open>load_try\<close> is the body of the \<open>try\<close>, \<open>load\<close> adds the two
  \<open>except\<close> clauses. They catch the decoder's error and the operating system's; every other
  exception of the body passes through. (A value that passed \<open>_validate_schema\<close> is a
  list, so the last case of \<open>load_try\<close> is never reached.)
\<close>

definition load_try :: "env \<Rightarrow> path \<Rightarrow> filesystem \<Rightarrow> exn + task list" where
  "load_try E p fs =
     (case read_text E fs p of
        Inl e \<Rightarrow> Inl e
      | Inr content \<Rightarrow>
          (case json_loads E content of
             Inl m \<Rightarrow> Inl (JSONDecodeError m)
           | Inr data \<Rightarrow>
               (case validate_schema data of
                  Inl e \<Rightarrow> Inl e
                | Inr u \<Rightarrow>
                    (case data of
                       PList ds \<Rightarrow> from_dicts E 0 ds
                     | _ \<Rightarrow> Inl TypeError))))"

definition load :: "env \<Rightarrow> path \<Rightarrow> filesystem \<Rightarrow> exn + task list" where
  "load E p fs =
     (case load_try E p fs of
        Inl (JSONDecodeError m) \<Rightarrow> Inl (StorageError (InvalidFormat m))
      | Inl (OSError e) \<Rightarrow> Inl (StorageError (LoadFailed e))
      | r \<Rightarrow> r)"

text \<open>\<open>_create_backup\<close> (lines 141 to 152): the \<open>OSError\<close> of the copy is dropped.\<close>

definition create_backup :: "env \<Rightarrow> path \<Rightarrow> filesystem \<Rightarrow> unit outcome" where
  "create_backup E p fs =
     (let backup_path = sibling p ''.backup''
      in case copy2 E fs p backup_path of
           (Inl e, fs1) \<Rightarrow> (Inr (), fs1)
         | (Inr u, fs1) \<Rightarrow> (Inr (), fs1))"

text \<open>
  \<open>_atomic_write\<close> (lines 109 to 139): \<open>atomic_write_try\<close> is the body of the \<open>try\<close>
  (write the temporary file, rename it, make the backup); the \<open>except Exception\<close> clause
  removes the temporary file if it is there and raises again. When the removal itself
  fails, its error is the one that leaves.
\<close>

definition atomic_write_try :: "env \<Rightarrow> path \<Rightarrow> filesystem \<Rightarrow> path \<Rightarrow> pyval \<Rightarrow> unit outcome" where
  "atomic_write_try E p fs temp_path data =
     (case write_json E fs temp_path data of
        (Inl e, fs1) \<Rightarrow> (Inl e, fs1)
      | (Inr u, fs1) \<Rightarrow>
          (case rename E fs1 temp_path p of
             (Inl e, fs2) \<Rightarrow> (Inl (OSError e), fs2)
           | (Inr u, fs2) \<Rightarrow> create_backup E p fs2))"

definition atomic_write :: "env \<Rightarrow> path \<Rightarrow> filesystem \<Rightarrow> pyval \<Rightarrow> unit outcome" where
  "atomic_write E p fs data =
     (let temp_path = sibling p ''.tmp''
      in case atomic_write_try E p fs temp_path data of
           (Inr u, fs1) \<Rightarrow> (Inr u, fs1)
         | (Inl e, fs1) \<Rightarrow>
             if path_exists fs1 temp_path
             then (case unlink E fs1 temp_path of
                     (Inl e', fs2) \<Rightarrow> (Inl (OSError e'), fs2)
                   | (Inr u, fs2) \<Rightarrow> (Inl e, fs2))
             else (Inl e, fs1))"

text \<open>\<open>save\<close> (lines 89 to 107): an \<open>OSError\<close> becomes a \<open>StorageError\<close>.\<close>

definition save :: "env \<Rightarrow> path \<Rightarrow> filesystem \<Rightarrow> task list \<Rightarrow> unit outcome" where
  "save E p fs tasks =
     (case atomic_write E p fs (PList (map to_dict tasks)) of
        (Inl (OSError e), fs1) \<Rightarrow> (Inl (StorageError (SaveFailed e)), fs1)
      | r \<Rightarrow> r)"

text \<open>\<open>get_all\<close> (lines 154 to 163).\<close>

definition get_all :: "env \<Rightarrow> path \<Rightarrow> filesystem \<Rightarrow> exn + task list" where
  "get_all E p fs =
     (case load E p fs of
        Inl e \<Rightarrow> Inl e
      | Inr tasks \<Rightarrow> from_dicts E 0 (map to_dict tasks))"

text \<open>\<open>get_by_id\<close> (lines 165 to 183): the first task with the id.\<close>

definition get_by_id :: "env \<Rightarrow> path \<Rightarrow> filesystem \<Rightarrow> pyval \<Rightarrow> exn + task" where
  "get_by_id E p fs task_id =
     (case load E p fs of
        Inl e \<Rightarrow> Inl e
      | Inr tasks \<Rightarrow>
          (case find (\<lambda>t. py_eq (id' t) task_id) tasks of
             Some t \<Rightarrow> Inr t
           | None \<Rightarrow> Inl (TaskNotFoundError task_id)))"

text \<open>\<open>add\<close> (lines 185 to 202).\<close>

definition add :: "env \<Rightarrow> path \<Rightarrow> filesystem \<Rightarrow> task \<Rightarrow> unit outcome" where
  "add E p fs t =
     (case load E p fs of
        Inl e \<Rightarrow> (Inl e, fs)
      | Inr tasks \<Rightarrow>
          if list_ex (\<lambda>t'. py_eq (id' t') (id' t)) tasks
          then (Inl (StorageError (AlreadyExists (id' t))), fs)
          else save E p fs (tasks @ [t]))"

text \<open>\<open>remove\<close> (lines 204 to 223).\<close>

definition remove :: "env \<Rightarrow> path \<Rightarrow> filesystem \<Rightarrow> pyval \<Rightarrow> unit outcome" where
  "remove E p fs task_id =
     (case load E p fs of
        Inl e \<Rightarrow> (Inl e, fs)
      | Inr tasks \<Rightarrow>
          (let original_length = length tasks;
               tasks' = filter (\<lambda>t. \<not> py_eq (id' t) task_id) tasks
           in if length tasks' = original_length
              then (Inl (TaskNotFoundError task_id), fs)
              else save E p fs tasks'))"

text \<open>
  \<open>update\<close> (lines 225 to 248): \<open>update_loop\<close> is the \<open>for\<close> loop with its \<open>break\<close>;
  it returns the list and the flag \<open>updated\<close>.
\<close>

fun update_loop :: "task list \<Rightarrow> task \<Rightarrow> task list \<times> bool" where
  "update_loop [] t = ([], False)"
| "update_loop (t' # ts) t =
     (if py_eq (id' t') (id' t) then (t # ts, True)
      else (case update_loop ts t of (ts', updated) \<Rightarrow> (t' # ts', updated)))"

definition update :: "env \<Rightarrow> path \<Rightarrow> filesystem \<Rightarrow> task \<Rightarrow> unit outcome" where
  "update E p fs t =
     (case load E p fs of
        Inl e \<Rightarrow> (Inl e, fs)
      | Inr tasks \<Rightarrow>
          (case update_loop tasks t of
             (tasks', updated) \<Rightarrow>
               if \<not> updated then (Inl (TaskNotFoundError (id' t)), fs)
               else save E p fs tasks'))"


section \<open>A JSON reader and writer for the examples\<close>

text \<open>
  The theorems below hold for every \<open>json_loads\<close> and \<open>json_dump\<close>. To run the store
  on the files of the examples, this section gives one pair: a reader for JSON texts
  (white space, \<open>null\<close>, \<open>true\<close>, \<open>false\<close>, integers, strings with their escapes,
  arrays, objects; a repeated key keeps its place and takes the last value, as in a
  Python dictionary) and a writer that lays the text out as \<open>indent=2\<close> does and stops
  at a value that is not JSON. The reader is not the whole of \<open>json.loads\<close>: it
  rejects a number with a fraction or an exponent, which the model of values does not
  hold, and its two messages are its own, not the decoder's. The reader's first argument bounds the number of values
  it reads one inside or after the other; \<open>py_json_loads\<close> gives it the length of the
  text, and a text holds fewer values than characters.
\<close>

definition json_ws :: "char \<Rightarrow> bool" where
  "json_ws c = (c = CHR '' '' \<or> c = CHR 0x0A \<or> c = CHR 0x0D \<or> c = CHR 0x09)"

definition skip_ws :: "string \<Rightarrow> string" where
  "skip_ws s = dropWhile json_ws s"

definition is_digit :: "char \<Rightarrow> bool" where
  "is_digit c = (48 \<le> (of_char c :: nat) \<and> (of_char c :: nat) \<le> 57)"

definition integer_digits :: "string \<Rightarrow> string \<Rightarrow> bool" where
  "integer_digits ds rest =
     (ds \<noteq> [] \<and> \<not> (1 < length ds \<and> hd ds = CHR ''0'') \<and>
      \<not> starts_with ''.'' rest \<and> \<not> starts_with ''e'' rest \<and> \<not> starts_with ''E'' rest)"

definition digits_value :: "string \<Rightarrow> int" where
  "digits_value ds = foldl (\<lambda>n c. 10 * n + (int (of_char c) - 48)) 0 ds"

definition hex_value :: "char \<Rightarrow> nat option" where
  "hex_value c =
     (let n = (of_char c :: nat)
      in if 48 \<le> n \<and> n \<le> 57 then Some (n - 48)
         else if 97 \<le> n \<and> n \<le> 102 then Some (n - 87)
         else if 65 \<le> n \<and> n \<le> 70 then Some (n - 55)
         else None)"

fun read_string :: "string \<Rightarrow> string \<Rightarrow> (string \<times> string) option" where
  "read_string acc [] = None"
| "read_string acc (c # cs) =
     (if c = CHR 0x22 then Some (rev acc, cs)
      else if c = CHR 0x5C then
        (case cs of
           [] \<Rightarrow> None
         | e # cs' \<Rightarrow>
             if e = CHR 0x22 \<or> e = CHR 0x5C \<or> e = CHR ''/'' then read_string (e # acc) cs'
             else if e = CHR ''n'' then read_string (CHR 0x0A # acc) cs'
             else if e = CHR ''r'' then read_string (CHR 0x0D # acc) cs'
             else if e = CHR ''t'' then read_string (CHR 0x09 # acc) cs'
             else if e = CHR ''b'' then read_string (CHR 0x08 # acc) cs'
             else if e = CHR ''f'' then read_string (CHR 0x0C # acc) cs'
             else if e = CHR ''u'' then
               (case cs' of
                  a # b # c' # d # cs'' \<Rightarrow>
                    (case (hex_value a, hex_value b, hex_value c', hex_value d) of
                       (Some 0, Some 0, Some h, Some l) \<Rightarrow>
                         read_string (char_of (16 * h + l) # acc) cs''
                     | _ \<Rightarrow> None)
                | _ \<Rightarrow> None)
             else None)
      else if (of_char c :: nat) < 32 then None
      else read_string (c # acc) cs)"

fun dict_set :: "string \<Rightarrow> pyval \<Rightarrow> (string \<times> pyval) list \<Rightarrow> (string \<times> pyval) list" where
  "dict_set k v [] = [(k, v)]"
| "dict_set k v ((k', v') # d) = (if k' = k then (k, v) # d else (k', v') # dict_set k v d)"

fun read_value :: "nat \<Rightarrow> string \<Rightarrow> (pyval \<times> string) option"
  and read_elements :: "nat \<Rightarrow> pyval list \<Rightarrow> string \<Rightarrow> (pyval \<times> string) option"
  and read_members :: "nat \<Rightarrow> (string \<times> pyval) list \<Rightarrow> string \<Rightarrow> (pyval \<times> string) option"
  where
  "read_value 0 s = None"
| "read_value (Suc n) s =
     (case skip_ws s of
        [] \<Rightarrow> None
      | c # cs \<Rightarrow>
          if starts_with ''null'' (c # cs) then Some (PNone, drop 4 (c # cs))
          else if starts_with ''true'' (c # cs) then Some (PBool True, drop 4 (c # cs))
          else if starts_with ''false'' (c # cs) then Some (PBool False, drop 5 (c # cs))
          else if c = CHR 0x22 then
            (case read_string [] cs of
               None \<Rightarrow> None
             | Some (str, rest) \<Rightarrow> Some (PStr str, rest))
          else if c = CHR ''['' then
            (case skip_ws cs of
               [] \<Rightarrow> None
             | c' # cs' \<Rightarrow> if c' = CHR '']'' then Some (PList [], cs') else read_elements n [] cs)
          else if c = CHR ''{'' then
            (case skip_ws cs of
               [] \<Rightarrow> None
             | c' # cs' \<Rightarrow> if c' = CHR ''}'' then Some (PDict [], cs') else read_members n [] cs)
          else if c = CHR ''-'' then
            (let ds = takeWhile is_digit cs; rest = dropWhile is_digit cs
             in if \<not> integer_digits ds rest
                then None else Some (PInt (- digits_value ds), rest))
          else
            (let ds = takeWhile is_digit (c # cs); rest = dropWhile is_digit (c # cs)
             in if \<not> integer_digits ds rest
                then None else Some (PInt (digits_value ds), rest)))"
| "read_elements 0 acc s = None"
| "read_elements (Suc n) acc s =
     (case read_value n s of
        None \<Rightarrow> None
      | Some (v, rest) \<Rightarrow>
          (case skip_ws rest of
             [] \<Rightarrow> None
           | c # cs \<Rightarrow>
               if c = CHR '','' then read_elements n (v # acc) cs
               else if c = CHR '']'' then Some (PList (rev (v # acc)), cs)
               else None))"
| "read_members 0 acc s = None"
| "read_members (Suc n) acc s =
     (case skip_ws s of
        [] \<Rightarrow> None
      | q # ks \<Rightarrow>
          if q \<noteq> CHR 0x22 then None
          else (case read_string [] ks of
                  None \<Rightarrow> None
                | Some (k, rest) \<Rightarrow>
                    (case skip_ws rest of
                       [] \<Rightarrow> None
                     | c # cs \<Rightarrow>
                         if c \<noteq> CHR '':'' then None
                         else (case read_value n cs of
                                 None \<Rightarrow> None
                               | Some (v, rest') \<Rightarrow>
                                   (case skip_ws rest' of
                                      [] \<Rightarrow> None
                                    | c' # cs' \<Rightarrow>
                                        if c' = CHR '','' then read_members n (dict_set k v acc) cs'
                                        else if c' = CHR ''}'' then Some (PDict (dict_set k v acc), cs')
                                        else None)))))"

definition py_json_loads :: "string \<Rightarrow> string + pyval" where
  "py_json_loads s =
     (case read_value (Suc (length s)) s of
        None \<Rightarrow> Inl ''Expecting value''
      | Some (v, rest) \<Rightarrow> if skip_ws rest = [] then Inr v else Inl ''Extra data'')"

fun nat_digits :: "nat \<Rightarrow> string" where
  "nat_digits n =
     (if n < 10 then [char_of (48 + n)]
      else nat_digits (n div 10) @ [char_of (48 + n mod 10)])"

definition dump_int :: "int \<Rightarrow> string" where
  "dump_int i = (if i < 0 then CHR ''-'' # nat_digits (nat (- i)) else nat_digits (nat i))"

definition hex_digit :: "nat \<Rightarrow> char" where
  "hex_digit n = (if n < 10 then char_of (48 + n) else char_of (87 + n))"

definition escape_char :: "char \<Rightarrow> string" where
  "escape_char c =
     (let n = (of_char c :: nat)
      in if c = CHR 0x22 then [CHR 0x5C, CHR 0x22]
         else if c = CHR 0x5C then [CHR 0x5C, CHR 0x5C]
         else if c = CHR 0x0A then [CHR 0x5C, CHR ''n'']
         else if c = CHR 0x0D then [CHR 0x5C, CHR ''r'']
         else if c = CHR 0x09 then [CHR 0x5C, CHR ''t'']
         else if c = CHR 0x08 then [CHR 0x5C, CHR ''b'']
         else if c = CHR 0x0C then [CHR 0x5C, CHR ''f'']
         else if n < 32 \<or> 126 < n
           then [CHR 0x5C, CHR ''u'', CHR ''0'', CHR ''0'', hex_digit (n div 16), hex_digit (n mod 16)]
         else [c])"

definition dump_string :: "string \<Rightarrow> string" where
  "dump_string s = CHR 0x22 # concat (map escape_char s) @ [CHR 0x22]"

definition newline_indent :: "nat \<Rightarrow> string" where
  "newline_indent n = CHR 0x0A # replicate n CHR '' ''"

fun dump_value :: "nat \<Rightarrow> pyval \<Rightarrow> string \<times> bool"
  and dump_elements :: "nat \<Rightarrow> pyval list \<Rightarrow> string \<times> bool"
  and dump_members :: "nat \<Rightarrow> (string \<times> pyval) list \<Rightarrow> string \<times> bool"
  where
  "dump_value n PNone = (''null'', True)"
| "dump_value n (PBool b) = (if b then ''true'' else ''false'', True)"
| "dump_value n (PInt i) = (dump_int i, True)"
| "dump_value n (PStr s) = (dump_string s, True)"
| "dump_value n (PList []) = (''[]'', True)"
| "dump_value n (PList (x # xs)) =
     (case dump_elements (n + 2) (x # xs) of
        (s, ok) \<Rightarrow> if ok then (''['' @ s @ newline_indent n @ '']'', True) else (''['' @ s, False))"
| "dump_value n (PDict []) = (''{}'', True)"
| "dump_value n (PDict (m # ms)) =
     (case dump_members (n + 2) (m # ms) of
        (s, ok) \<Rightarrow> if ok then (''{'' @ s @ newline_indent n @ ''}'', True) else (''{'' @ s, False))"
| "dump_value n (PPriority p) = ([], False)"
| "dump_value n (PStatus s) = ([], False)"
| "dump_elements n [] = ([], True)"
| "dump_elements n (x # xs) =
     (case dump_value n x of
        (s, ok) \<Rightarrow>
          if \<not> ok then (newline_indent n @ s, False)
          else (case dump_elements n xs of
                  (s', ok') \<Rightarrow> (newline_indent n @ s @ (if xs = [] then [] else '','') @ s', ok')))"
| "dump_members n [] = ([], True)"
| "dump_members n ((k, v) # ms) =
     (case dump_value n v of
        (s, ok) \<Rightarrow>
          if \<not> ok then (newline_indent n @ dump_string k @ '': '' @ s, False)
          else (case dump_members n ms of
                  (s', ok') \<Rightarrow>
                    (newline_indent n @ dump_string k @ '': '' @ s @ (if ms = [] then [] else '','') @ s',
                     ok')))"

definition py_json_dump :: "pyval \<Rightarrow> dump_result" where
  "py_json_dump data = (case dump_value 0 data of (s, ok) \<Rightarrow> if ok then Dumped s else NotSerializable s)"


section \<open>Well-typed tasks\<close>

text \<open>
  The fields of the \<open>Task\<close> dataclass are annotated (models.py, lines 48 to 55): the
  title, the id and the creation time are texts, the description, the due date and the
  completion time are texts or \<open>None\<close>, the priority and the status are members of
  their enumerations. Python does not enforce the annotations; \<open>well_typed\<close> says that a
  task follows them. A text is \<open>stripped\<close> when it neither starts nor ends with white
  space.
\<close>

definition is_str :: "pyval \<Rightarrow> bool" where
  "is_str v = (case v of PStr s \<Rightarrow> True | _ \<Rightarrow> False)"

definition is_optional_str :: "pyval \<Rightarrow> bool" where
  "is_optional_str v = (case v of PNone \<Rightarrow> True | PStr s \<Rightarrow> True | _ \<Rightarrow> False)"

definition is_priority :: "pyval \<Rightarrow> bool" where
  "is_priority v = (case v of PPriority p \<Rightarrow> True | _ \<Rightarrow> False)"

definition is_status :: "pyval \<Rightarrow> bool" where
  "is_status v = (case v of PStatus s \<Rightarrow> True | _ \<Rightarrow> False)"

definition well_typed :: "task \<Rightarrow> bool" where
  "well_typed t =
     (is_str (title t) \<and> is_optional_str (description t) \<and> is_priority (priority t) \<and>
      is_optional_str (due_date t) \<and> is_status (status t) \<and> is_str (id' t) \<and>
      is_str (created_at t) \<and> is_optional_str (completed_at t))"

definition stripped :: "string \<Rightarrow> bool" where
  "stripped s = (s = [] \<or> (\<not> py_isspace (hd s) \<and> \<not> py_isspace (last s)))"

definition title_stripped :: "task \<Rightarrow> bool" where
  "title_stripped t = (case title t of PStr s \<Rightarrow> stripped s | _ \<Rightarrow> True)"

section \<open>Examples\<close>

text \<open>
  A machine on which nothing fails, a store in the user's directory, and a few disks:
  an empty one, one whose store holds the tasks \<open>a\<close> and \<open>b\<close>, and others whose store
  holds the text named.
\<close>

definition healthy :: env where
  "healthy =
     \<lparr>json_loads = py_json_loads, json_dump = py_json_dump, fault = (\<lambda>op p. None),
      uuid4 = (\<lambda>i. ''6f1c0b5e-0000-4000-8000-'' @ replicate i CHR ''0''),
      now = (\<lambda>i. ''2026-11-04T10:00:00'')\<rparr>"

definition store_path :: path where
  "store_path = [''home'', ''ada'', ''tasks.json'']"

definition empty_disk :: filesystem where
  "empty_disk = \<lparr>files = Map.empty, dirs = {}\<rparr>"

definition disk_with :: "string \<Rightarrow> filesystem" where
  "disk_with s =
     \<lparr>files = [store_path \<mapsto> Text s], dirs = {[''home''], [''home'', ''ada'']}\<rparr>"

definition task_a :: task where
  "task_a =
     \<lparr>title = PStr ''X'', description = PNone, priority = PPriority HIGH, due_date = PNone,
      status = PStatus ACTIVE, id' = PStr ''a'', created_at = PStr ''2026-01-01T09:00:00'',
      completed_at = PNone\<rparr>"

definition task_b :: task where
  "task_b =
     \<lparr>title = PStr ''Water the plants'', description = PStr ''all of them'',
      priority = PPriority LOW, due_date = PStr ''2026-12-31'', status = PStatus COMPLETED,
      id' = PStr ''b'', created_at = PStr ''2026-01-02T09:00:00'',
      completed_at = PStr ''2026-01-03T18:30:00''\<rparr>"

definition text_ab :: string where
  \<open>text_ab =
     ''[{"id": "a", "title": "X", "description": null, "priority": "high", "due_date": null, "status": "active", "created_at": "2026-01-01T09:00:00", "completed_at": null}, {"id": "b", "title": "Water the plants", "description": "all of them", "priority": "low", "due_date": "2026-12-31", "status": "completed", "created_at": "2026-01-02T09:00:00", "completed_at": "2026-01-03T18:30:00"}]''\<close>

definition disk_ab :: filesystem where
  "disk_ab = disk_with text_ab"

definition text_not_list :: string where
  \<open>text_not_list = ''{"not": "a list"}''\<close>

definition text_truncated :: string where
  \<open>text_truncated = ''[{"id"''\<close>

definition text_no_title :: string where
  \<open>text_no_title = ''[{"id": "a", "title": "X"}, {"id": "b", "priority": "low"}]''\<close>

definition text_urgent_first :: string where
  \<open>text_urgent_first = ''[{"title": "a", "priority": "urgent"}, {"id": "x"}]''\<close>

definition text_upper_case :: string where
  \<open>text_upper_case =
     ''[{"id": "a", "title": "X", "description": null, "priority": "HIGH", "due_date": null, "status": "Active", "created_at": "2026-01-01T09:00:00", "completed_at": null}]''\<close>

definition text_bad_status :: string where
  \<open>text_bad_status = ''[{"id": "a", "title": "X"}, {"id": "b", "title": "Y", "status": "done"}]''\<close>

definition text_bad_priority :: string where
  \<open>text_bad_priority = ''[{"id": "a", "title": "X", "priority": "urgent", "status": "done"}]''\<close>

text \<open>
  Two machines with one fault each: on the first every \<open>rename\<close> is refused, on the
  second every copy.
\<close>

definition no_rename :: env where
  "no_rename = healthy\<lparr>fault := (\<lambda>op p. if op = OpRename then Some Refused else None)\<rparr>"

definition no_copy :: env where
  "no_copy = healthy\<lparr>fault := (\<lambda>op p. if op = OpCopy then Some Refused else None)\<rparr>"

text \<open>A machine on which every \<open>rename\<close> and every \<open>unlink\<close> is refused.\<close>

definition no_rename_no_unlink :: env where
  "no_rename_no_unlink =
     healthy\<lparr>fault := (\<lambda>op p. if op = OpRename \<or> op = OpUnlink then Some Refused else None)\<rparr>"

text \<open>A disk whose store holds the single byte 255, which is not a text in UTF-8.\<close>

definition disk_with_bytes :: filesystem where
  "disk_with_bytes =
     \<lparr>files = [store_path \<mapsto> Binary [CHR 0xFF]], dirs = {[''home''], [''home'', ''ada'']}\<rparr>"

text \<open>A third task, with the id \<open>c\<close>.\<close>

definition task_c :: task where
  "task_c = task_a\<lparr>title := PStr ''Call the bank'', id' := PStr ''c''\<rparr>"

text \<open>The task \<open>a\<close> with a space on each side of its title.\<close>

definition task_padded :: task where
  "task_padded = task_a\<lparr>title := PStr '' X ''\<rparr>"

section \<open>Facts about the examples\<close>

lemma load_disk_ab: "load healthy store_path disk_ab = Inr [task_a, task_b]"
  by code_simp

lemma read_disk_with: "read_text healthy (disk_with s) store_path = Inr s"
  by (simp add: read_text_def healthy_def disk_with_def)

lemma loads_truncated: "json_loads healthy text_truncated = Inl ''Expecting value''"
  unfolding healthy_def by code_simp

lemma loads_not_list:
  "json_loads healthy text_not_list = Inr (PDict [(''not'', PStr ''a list'')])"
  unfolding healthy_def by code_simp

lemma loads_no_title:
  "json_loads healthy text_no_title =
     Inr (PList ([PDict [(''id'', PStr ''a''), (''title'', PStr ''X'')]] @
                 PDict [(''id'', PStr ''b''), (''priority'', PStr ''low'')] # []))"
  unfolding healthy_def by code_simp

lemma loads_urgent_first:
  "json_loads healthy text_urgent_first =
     Inr (PList [PDict [(''title'', PStr ''a''), (''priority'', PStr ''urgent'')],
                 PDict [(''id'', PStr ''x'')]])"
  unfolding healthy_def by code_simp

lemma loads_bad_status:
  "json_loads healthy text_bad_status =
     Inr (PList ([PDict [(''id'', PStr ''a''), (''title'', PStr ''X'')]] @
                 PDict [(''id'', PStr ''b''), (''title'', PStr ''Y''), (''status'', PStr ''done'')] # []))"
  unfolding healthy_def by code_simp

lemma loads_bad_priority:
  "json_loads healthy text_bad_priority =
     Inr (PList ([] @
                 PDict [(''id'', PStr ''a''), (''title'', PStr ''X''),
                        (''priority'', PStr ''urgent''), (''status'', PStr ''done'')] # []))"
  unfolding healthy_def by code_simp

lemma from_dicts_first_ok:
  "from_dicts healthy 0 [PDict [(''id'', PStr ''a''), (''title'', PStr ''X'')]] =
     Inr [task_a\<lparr>priority := PPriority MEDIUM, created_at := PStr ''2026-11-04T10:00:00''\<rparr>]"
  by code_simp

section \<open>How \<open>save\<close> proceeds\<close>

lemma sibling_neq: "suffix \<noteq> [] \<Longrightarrow> sibling p suffix \<noteq> p"
proof (cases "p = []")
  case True
  then show ?thesis by (simp add: sibling_def)
next
  case False
  assume "suffix \<noteq> []"
  show ?thesis
  proof
    assume "sibling p suffix = p"
    then have "butlast p @ [last p @ suffix] = butlast p @ [last p]"
      using False by (simp add: sibling_def parent_def name_def)
    then have "last p @ suffix = last p" by simp
    with \<open>suffix \<noteq> []\<close> show False by simp
  qed
qed

lemma parent_sibling: "parent (sibling p suffix) = parent p"
  by (simp add: sibling_def parent_def)

lemma write_json_ok:
  "fst (write_json E fs q data) = Inr () \<Longrightarrow>
     \<exists>s. json_dump E data = Dumped s \<and>
         snd (write_json E fs q data) = fs\<lparr>files := (files fs)(q \<mapsto> Text s)\<rparr> \<and>
         \<not> is_dir fs q \<and> is_dir fs (parent q)"
  by (auto simp: write_json_def open_w_def split: if_splits dump_result.splits option.splits)

lemma rename_failed: "fst (rename E fs src dst) = Inl e \<Longrightarrow> snd (rename E fs src dst) = fs"
  by (auto simp: rename_def split: if_splits option.splits)

lemma rename_ok:
  "fst (rename E fs src dst) = Inr () \<Longrightarrow>
     \<exists>c. files fs src = Some c \<and>
         snd (rename E fs src dst) = fs\<lparr>files := ((files fs)(src := None))(dst \<mapsto> c)\<rparr> \<and>
         \<not> is_dir fs dst \<and> is_dir fs (parent dst)"
  by (auto simp: rename_def split: if_splits option.splits)

lemma create_backup_never_raises:
  "create_backup E p fs = (Inr (), snd (copy2 E fs p (sibling p ''.backup'')))"
  by (cases "copy2 E fs p (sibling p ''.backup'')")
    (auto simp: create_backup_def split: sum.splits)

lemma copy2_keeps_source: "files (snd (copy2 E fs src dst)) src = files fs src"
  by (auto simp: copy2_def Let_def split: option.splits)

lemma copy2_ok:
  "files fs src = Some c \<Longrightarrow> fault E OpCopy src = None \<Longrightarrow> \<not> is_dir fs dst \<Longrightarrow>
   is_dir fs (parent dst) \<Longrightarrow> dst \<noteq> src \<Longrightarrow>
     files (snd (copy2 E fs src dst)) dst = Some c"
  by (simp add: copy2_def)

lemma save_ok_steps:
  assumes "fst (save E p fs tasks) = Inr ()"
  shows "fst (write_json E fs (sibling p ''.tmp'') (PList (map to_dict tasks))) = Inr () \<and>
     fst (rename E (snd (write_json E fs (sibling p ''.tmp'') (PList (map to_dict tasks))))
            (sibling p ''.tmp'') p) = Inr ()"
proof -
  let ?tmp = "sibling p ''.tmp''"
  let ?data = "PList (map to_dict tasks)"
  have aw: "fst (atomic_write E p fs ?data) = Inr ()"
    using assms by (auto simp: save_def split: prod.splits sum.splits exn.splits)
  have body: "fst (atomic_write_try E p fs ?tmp ?data) = Inr ()"
    using aw by (auto simp: atomic_write_def Let_def split: prod.splits sum.splits if_splits)
  obtain r1 fs1 where w: "write_json E fs ?tmp ?data = (r1, fs1)" by (cases "write_json E fs ?tmp ?data")
  obtain r2 fs2 where r: "rename E fs1 ?tmp p = (r2, fs2)" by (cases "rename E fs1 ?tmp p")
  from body w r have "r1 = Inr ()" "r2 = Inr ()"
    by (auto simp: atomic_write_try_def split: sum.splits)
  with w r show ?thesis by simp
qed

lemma save_ok_content:
  assumes w: "fst (write_json E fs (sibling p ''.tmp'') (PList (map to_dict tasks))) = Inr ()"
    and r: "fst (rename E (snd (write_json E fs (sibling p ''.tmp'') (PList (map to_dict tasks))))
            (sibling p ''.tmp'') p) = Inr ()"
  shows "\<exists>s. json_dump E (PList (map to_dict tasks)) = Dumped s \<and>
       save E p fs tasks =
         (Inr (), snd (copy2 E (fs\<lparr>files := ((files fs)(sibling p ''.tmp'' := None))(p \<mapsto> Text s)\<rparr>) p
                    (sibling p ''.backup''))) \<and>
       \<not> is_dir fs p \<and> is_dir fs (parent p)"
proof -
  let ?tmp = "sibling p ''.tmp''"
  let ?data = "PList (map to_dict tasks)"
  from write_json_ok [OF w] obtain s where
    d: "json_dump E ?data = Dumped s"
    and fs1: "snd (write_json E fs ?tmp ?data) = fs\<lparr>files := (files fs)(?tmp \<mapsto> Text s)\<rparr>"
    by blast
  let ?fs1 = "fs\<lparr>files := (files fs)(?tmp \<mapsto> Text s)\<rparr>"
  let ?fs2 = "fs\<lparr>files := ((files fs)(?tmp := None))(p \<mapsto> Text s)\<rparr>"
  have wj: "write_json E fs ?tmp ?data = (Inr (), ?fs1)"
    using w fs1 by (metis prod.collapse)
  from r fs1 have r': "fst (rename E ?fs1 ?tmp p) = Inr ()" by simp
  from rename_ok [OF r'] have fs2: "snd (rename E ?fs1 ?tmp p) = ?fs2"
    and np: "\<not> is_dir fs p" and pd: "is_dir fs (parent p)"
    by (auto simp: is_dir_def)
  have rn: "rename E ?fs1 ?tmp p = (Inr (), ?fs2)"
    using r' fs2 by (metis prod.collapse)
  have body: "atomic_write_try E p fs ?tmp ?data = (Inr (), snd (copy2 E ?fs2 p (sibling p ''.backup'')))"
    by (simp add: atomic_write_try_def wj rn create_backup_never_raises)
  have "save E p fs tasks = (Inr (), snd (copy2 E ?fs2 p (sibling p ''.backup'')))"
    by (simp add: save_def atomic_write_def Let_def body)
  with d np pd show ?thesis by blast
qed

lemma save_ok_file:
  assumes "fst (save E p fs tasks) = Inr ()"
  shows "\<exists>s. json_dump E (PList (map to_dict tasks)) = Dumped s \<and>
       files (snd (save E p fs tasks)) p = Some (Text s)"
proof -
  from save_ok_steps [OF assms] save_ok_content obtain s where
    d: "json_dump E (PList (map to_dict tasks)) = Dumped s"
    and sv: "save E p fs tasks =
         (Inr (), snd (copy2 E (fs\<lparr>files := ((files fs)(sibling p ''.tmp'' := None))(p \<mapsto> Text s)\<rparr>) p
                    (sibling p ''.backup'')))"
    by blast
  have "files (snd (save E p fs tasks)) p = Some (Text s)"
    by (simp add: sv copy2_keeps_source)
  with d show ?thesis by blast
qed


section \<open>Looking a task up by its id\<close>

lemma find_absent: "\<not> list_ex P xs \<Longrightarrow> find P xs = None"
  by (induction xs) auto

lemma filter_keeps_all: "\<not> list_ex P xs \<Longrightarrow> filter (\<lambda>x. \<not> P x) xs = xs"
  by (induction xs) auto

lemma update_loop_absent:
  "\<not> list_ex (\<lambda>t'. py_eq (id' t') (id' t)) ts \<Longrightarrow> update_loop ts t = (ts, False)"
  by (induction ts) auto

lemma update_loop_present:
  "list_ex (\<lambda>t'. py_eq (id' t') (id' t)) ts \<Longrightarrow>
     \<exists>k. k < length ts \<and> py_eq (id' (ts ! k)) (id' t) \<and>
         (\<forall>j<k. \<not> py_eq (id' (ts ! j)) (id' t)) \<and>
         update_loop ts t = (ts[k := t], True)"
proof (induction ts)
  case Nil
  then show ?case by simp
next
  case (Cons a ts)
  show ?case
  proof (cases "py_eq (id' a) (id' t)")
    case True
    then show ?thesis by (intro exI[of _ 0]) simp
  next
    case False
    with Cons.prems have "list_ex (\<lambda>t'. py_eq (id' t') (id' t)) ts" by simp
    from Cons.IH[OF this] obtain k where k: "k < length ts" "py_eq (id' (ts ! k)) (id' t)"
      "\<forall>j<k. \<not> py_eq (id' (ts ! j)) (id' t)" "update_loop ts t = (ts[k := t], True)"
      by blast
    have "\<forall>j<Suc k. \<not> py_eq (id' ((a # ts) ! j)) (id' t)"
      using False k(3) by (auto simp: less_Suc_eq_0_disj)
    with k False show ?thesis by (intro exI[of _ "Suc k"]) simp
  qed
qed

text \<open>
  C4. When the store loads and no task in it has the id \<open>i\<close>, \<open>get_by_id\<close>, \<open>remove\<close>
  and \<open>update\<close> (of a task with that id) all raise \<open>TaskNotFoundError\<close>, which is not a
  \<open>StorageError\<close>; \<open>remove\<close> and \<open>update\<close> return the file system they were given.
\<close>

theorem absent_id_not_found:
  "load E p fs = Inr tasks \<Longrightarrow> \<not> list_ex (\<lambda>t'. py_eq (id' t') i) tasks \<Longrightarrow> id' t = i \<Longrightarrow>
     get_by_id E p fs i = Inl (TaskNotFoundError i) \<and>
     remove E p fs i = (Inl (TaskNotFoundError i), fs) \<and>
     update E p fs t = (Inl (TaskNotFoundError i), fs) \<and>
     (\<forall>m. TaskNotFoundError i \<noteq> StorageError m)"
  by (simp add: get_by_id_def remove_def update_def find_absent filter_keeps_all
      update_loop_absent)

theorem absent_id_not_found_witness:
  "get_by_id healthy store_path disk_ab (PStr ''zz'') = Inl (TaskNotFoundError (PStr ''zz'')) \<and>
   remove healthy store_path disk_ab (PStr ''zz'') = (Inl (TaskNotFoundError (PStr ''zz'')), disk_ab) \<and>
   update healthy store_path disk_ab (task_a\<lparr>id' := PStr ''zz''\<rparr>) =
     (Inl (TaskNotFoundError (PStr ''zz'')), disk_ab)"
  using absent_id_not_found [OF load_disk_ab, of "PStr ''zz''" "task_a\<lparr>id' := PStr ''zz''\<rparr>"]
  by (simp add: task_a_def task_b_def)

text \<open>
  C3. When the store loads, \<open>add\<close> of a task whose id is already there raises
  \<open>StorageError\<close> with the message "already exists", which is not a
  \<open>TaskNotFoundError\<close>, and returns the file system it was given. \<open>add\<close> of a task
  whose id is not there is \<open>save\<close> of the loaded list with the task at its end, and
  when it returns without an exception the store's file holds the text that
  \<open>json.dump\<close> wrote for that whole list.
\<close>

theorem add_duplicate_or_append:
  "load E p fs = Inr tasks \<Longrightarrow>
     (list_ex (\<lambda>t'. py_eq (id' t') (id' t)) tasks \<longrightarrow>
        add E p fs t = (Inl (StorageError (AlreadyExists (id' t))), fs) \<and>
        (\<forall>i. StorageError (AlreadyExists (id' t)) \<noteq> TaskNotFoundError i)) \<and>
     (\<not> list_ex (\<lambda>t'. py_eq (id' t') (id' t)) tasks \<longrightarrow>
        add E p fs t = save E p fs (tasks @ [t]) \<and>
        (fst (add E p fs t) = Inr () \<longrightarrow>
           (\<exists>s. json_dump E (PList (map to_dict (tasks @ [t]))) = Dumped s \<and>
              files (snd (add E p fs t)) p = Some (Text s))))"
proof -
  assume l: "load E p fs = Inr tasks"
  have dup: "add E p fs t = (Inl (StorageError (AlreadyExists (id' t))), fs)"
    if "list_ex (\<lambda>t'. py_eq (id' t') (id' t)) tasks"
    using l that by (simp add: add_def)
  have app: "add E p fs t = save E p fs (tasks @ [t])"
    if "\<not> list_ex (\<lambda>t'. py_eq (id' t') (id' t)) tasks"
    using l that by (simp add: add_def)
  have disk: "\<exists>s. json_dump E (PList (map to_dict (tasks @ [t]))) = Dumped s \<and>
        files (snd (add E p fs t)) p = Some (Text s)"
    if "\<not> list_ex (\<lambda>t'. py_eq (id' t') (id' t)) tasks" "fst (add E p fs t) = Inr ()"
  proof -
    from app [OF that(1)] that(2) have "fst (save E p fs (tasks @ [t])) = Inr ()" by simp
    from save_ok_file [OF this] app [OF that(1)] show ?thesis by simp
  qed
  show ?thesis using dup app disk by simp
qed

theorem add_duplicate_or_append_witness:
  "add healthy store_path disk_ab (task_b\<lparr>title := PStr ''Again''\<rparr>) =
     (Inl (StorageError (AlreadyExists (PStr ''b''))), disk_ab) \<and>
   fst (add healthy store_path disk_ab task_c) = Inr () \<and>
   (\<exists>s. json_dump healthy (PList (map to_dict [task_a, task_b, task_c])) = Dumped s \<and>
      files (snd (add healthy store_path disk_ab task_c)) store_path = Some (Text s)) \<and>
   load healthy store_path (snd (add healthy store_path disk_ab task_c)) =
     Inr [task_a, task_b, task_c]"
proof (intro conjI)
  show "add healthy store_path disk_ab (task_b\<lparr>title := PStr ''Again''\<rparr>) =
     (Inl (StorageError (AlreadyExists (PStr ''b''))), disk_ab)"
    using add_duplicate_or_append [OF load_disk_ab, of "task_b\<lparr>title := PStr ''Again''\<rparr>"]
    by (simp add: task_a_def task_b_def)
  show ok: "fst (add healthy store_path disk_ab task_c) = Inr ()" by code_simp
  have absent: "\<not> list_ex (\<lambda>t'. py_eq (id' t') (id' task_c)) [task_a, task_b]"
    by (simp add: task_a_def task_b_def task_c_def)
  from add_duplicate_or_append [OF load_disk_ab, of task_c] absent ok
  have "\<exists>s. json_dump healthy (PList (map to_dict ([task_a, task_b] @ [task_c]))) = Dumped s \<and>
      files (snd (add healthy store_path disk_ab task_c)) store_path = Some (Text s)"
    by blast
  then show "\<exists>s. json_dump healthy (PList (map to_dict [task_a, task_b, task_c])) = Dumped s \<and>
      files (snd (add healthy store_path disk_ab task_c)) store_path = Some (Text s)"
    by simp
  show "load healthy store_path (snd (add healthy store_path disk_ab task_c)) =
     Inr [task_a, task_b, task_c]"
    by code_simp
qed

text \<open>
  C9. When the store loads and some task in it has the id of \<open>t\<close>, \<open>update\<close> is \<open>save\<close>
  of the loaded list with \<open>t\<close> in the place of the first task with that id, at position
  \<open>k\<close>: a list of the same length in which every other position holds what it held.
  When \<open>update\<close> returns without an exception the store's file holds the text that
  \<open>json.dump\<close> wrote for that whole list.
\<close>

theorem update_in_place:
  "load E p fs = Inr tasks \<Longrightarrow> list_ex (\<lambda>t'. py_eq (id' t') (id' t)) tasks \<Longrightarrow>
     \<exists>k tasks'. k < length tasks \<and> py_eq (id' (tasks ! k)) (id' t) \<and>
       (\<forall>j<k. \<not> py_eq (id' (tasks ! j)) (id' t)) \<and>
       tasks' = tasks[k := t] \<and>
       length tasks' = length tasks \<and> tasks' ! k = t \<and>
       (\<forall>j<length tasks. j \<noteq> k \<longrightarrow> tasks' ! j = tasks ! j) \<and>
       update E p fs t = save E p fs tasks' \<and>
       (fst (update E p fs t) = Inr () \<longrightarrow>
          (\<exists>s. json_dump E (PList (map to_dict tasks')) = Dumped s \<and>
             files (snd (update E p fs t)) p = Some (Text s)))"
proof -
  assume l: "load E p fs = Inr tasks" and ex: "list_ex (\<lambda>t'. py_eq (id' t') (id' t)) tasks"
  from update_loop_present [OF ex] obtain k where k: "k < length tasks"
    "py_eq (id' (tasks ! k)) (id' t)" "\<forall>j<k. \<not> py_eq (id' (tasks ! j)) (id' t)"
    "update_loop tasks t = (tasks[k := t], True)" by blast
  have eq: "update E p fs t = save E p fs (tasks[k := t])"
    using l k(4) by (simp add: update_def)
  have disk: "\<exists>s. json_dump E (PList (map to_dict (tasks[k := t]))) = Dumped s \<and>
        files (snd (update E p fs t)) p = Some (Text s)"
    if "fst (update E p fs t) = Inr ()"
  proof -
    from that eq have "fst (save E p fs (tasks[k := t])) = Inr ()" by simp
    from save_ok_file [OF this] eq show ?thesis by simp
  qed
  from k eq disk show ?thesis
    by (intro exI[of _ k] exI[of _ "tasks[k := t]"]) simp
qed

theorem update_in_place_witness:
  "update healthy store_path disk_ab (task_b\<lparr>title := PStr ''Y''\<rparr>) =
     save healthy store_path disk_ab [task_a, task_b\<lparr>title := PStr ''Y''\<rparr>] \<and>
   fst (update healthy store_path disk_ab (task_b\<lparr>title := PStr ''Y''\<rparr>)) = Inr () \<and>
   (\<exists>s. json_dump healthy (PList (map to_dict [task_a, task_b\<lparr>title := PStr ''Y''\<rparr>])) = Dumped s \<and>
      files (snd (update healthy store_path disk_ab (task_b\<lparr>title := PStr ''Y''\<rparr>))) store_path =
        Some (Text s)) \<and>
   load healthy store_path (snd (update healthy store_path disk_ab (task_b\<lparr>title := PStr ''Y''\<rparr>))) =
     Inr [task_a, task_b\<lparr>title := PStr ''Y''\<rparr>]"
proof -
  let ?t = "task_b\<lparr>title := PStr ''Y''\<rparr>"
  have present: "list_ex (\<lambda>t'. py_eq (id' t') (id' ?t)) [task_a, task_b]"
    by (simp add: task_a_def task_b_def)
  have ok: "fst (update healthy store_path disk_ab ?t) = Inr ()" by code_simp
  from update_in_place [OF load_disk_ab present]
  obtain k tasks' where k: "k < length [task_a, task_b]"
    and hit: "py_eq (id' ([task_a, task_b] ! k)) (id' ?t)"
    and new: "tasks' = [task_a, task_b][k := ?t]"
    and upd: "update healthy store_path disk_ab ?t = save healthy store_path disk_ab tasks'"
    and disk: "fst (update healthy store_path disk_ab ?t) = Inr () \<longrightarrow>
          (\<exists>s. json_dump healthy (PList (map to_dict tasks')) = Dumped s \<and>
             files (snd (update healthy store_path disk_ab ?t)) store_path = Some (Text s))"
    by blast
  have "k \<noteq> 0"
  proof
    assume "k = 0"
    with hit show False by (simp add: task_a_def task_b_def)
  qed
  with k have "k = 1" by simp
  with new have list: "tasks' = [task_a, ?t]" by simp
  have reread: "load healthy store_path (snd (update healthy store_path disk_ab ?t)) =
      Inr [task_a, ?t]"
    by code_simp
  from upd disk ok list reread show ?thesis by simp
qed

section \<open>What \<open>load\<close> raises\<close>

lemma from_dicts_append:
  "from_dicts E i (xs @ ys) =
     (case from_dicts E i xs of
        Inl e \<Rightarrow> Inl e
      | Inr ts \<Rightarrow>
          (case from_dicts E (i + length xs) ys of
             Inl e \<Rightarrow> Inl e
           | Inr us \<Rightarrow> Inr (ts @ us)))"
  by (induction xs arbitrary: i) (auto split: sum.splits)

lemma load_of_list:
  "read_text E fs p = Inr content \<Longrightarrow> json_loads E content = Inr (PList ds) \<Longrightarrow>
     load_try E p fs = from_dicts E 0 ds"
  by (simp add: load_try_def validate_schema_def isinstance_list_def)

lemma from_dicts_stops:
  "from_dicts E 0 pre = Inr ts \<Longrightarrow> from_dict E (length pre) d = Inl e \<Longrightarrow>
     from_dicts E 0 (pre @ d # post) = Inl e"
  by (simp add: from_dicts_append)

lemma from_dict_no_title:
  "''title'' \<notin> set (map fst d) \<Longrightarrow>
     from_dict E i (PDict d) = Inl (KeyError ''Missing required field: title'')"
  by (simp add: from_dict_def)

text \<open>
  For a store whose file is a text that can be read, \<open>load\<close> raises \<open>StorageError\<close>
  with the message "invalid JSON format" if \<open>json.loads\<close> rejects the text, and
  \<open>StorageError\<close> with the message "Invalid JSON schema" if \<open>json.loads\<close> returns a
  value that is not a list; the two are different values, told apart by their message.
\<close>

theorem load_rejects_bad_text:
  "read_text E fs p = Inr content \<Longrightarrow>
     (\<forall>m. json_loads E content = Inl m \<longrightarrow>
        load E p fs = Inl (StorageError (InvalidFormat m))) \<and>
     (\<forall>data. json_loads E content = Inr data \<and> \<not> isinstance_list data \<longrightarrow>
        load E p fs = Inl (StorageError InvalidSchema)) \<and>
     (\<forall>m. StorageError (InvalidFormat m) \<noteq> StorageError InvalidSchema)"
  by (simp add: load_def load_try_def validate_schema_def)

theorem load_rejects_bad_text_witness:
  "load healthy store_path (disk_with text_truncated) =
     Inl (StorageError (InvalidFormat ''Expecting value'')) \<and>
   load healthy store_path (disk_with text_not_list) = Inl (StorageError InvalidSchema)"
  using load_rejects_bad_text [OF read_disk_with, of text_truncated]
    load_rejects_bad_text [OF read_disk_with, of text_not_list]
  by (simp add: loads_truncated loads_not_list isinstance_list_def)

lemma load_undecodable:
  "files fs p = Some (Binary b) \<Longrightarrow> fault E OpRead p = None \<Longrightarrow>
     load E p fs = Inl UnicodeDecodeError"
  by (simp add: load_def load_try_def read_text_def)

text \<open>
  C6 fails on a file that is not a text. The store's file holds the byte 255, so its
  content is not JSON; \<open>read_text\<close> raises \<open>UnicodeDecodeError\<close>, neither \<open>except\<close>
  clause of \<open>load\<close> catches it, and it leaves \<open>load\<close> as it is: no \<open>StorageError\<close>,
  although the docstring of \<open>load\<close> promises one when the file cannot be loaded or
  parsed.
\<close>

theorem load_undecodable_file:
  "files disk_with_bytes store_path = Some (Binary [CHR 0xFF]) \<and>
   load healthy store_path disk_with_bytes = Inl UnicodeDecodeError \<and>
   (\<forall>m. UnicodeDecodeError \<noteq> StorageError m)"
proof (intro conjI)
  show f: "files disk_with_bytes store_path = Some (Binary [CHR 0xFF])"
    by (simp add: disk_with_bytes_def)
  have "fault healthy OpRead store_path = None" by (simp add: healthy_def)
  with f show "load healthy store_path disk_with_bytes = Inl UnicodeDecodeError"
    by (rule load_undecodable)
  show "\<forall>m. UnicodeDecodeError \<noteq> StorageError m" by simp
qed

text \<open>
  C7, as the code has it. When the file can be read and holds a list, the elements
  before some dictionary without the key \<open>title\<close> all become tasks, then \<open>load\<close> raises
  the \<open>KeyError\<close> of \<open>from_dict\<close>, as it is.
\<close>

theorem load_missing_title:
  "read_text E fs p = Inr content \<Longrightarrow>
   json_loads E content = Inr (PList (pre @ PDict d # post)) \<Longrightarrow>
   from_dicts E 0 pre = Inr ts \<Longrightarrow> ''title'' \<notin> set (map fst d) \<Longrightarrow>
     load E p fs = Inl (KeyError ''Missing required field: title'')"
  by (simp add: load_def load_of_list from_dicts_stops from_dict_no_title)

theorem load_missing_title_witness:
  "load healthy store_path (disk_with text_no_title) =
     Inl (KeyError ''Missing required field: title'')"
proof -
  from load_missing_title [OF read_disk_with loads_no_title from_dicts_first_ok]
  show ?thesis by simp
qed

text \<open>
  The claim C7 as written fails: in this file the second element has no title, but the
  first has a priority that is not one, and \<open>load\<close> raises its \<open>ValueError\<close>.
\<close>

theorem load_missing_title_counterexample:
  "json_loads healthy text_urgent_first =
     Inr (PList [PDict [(''title'', PStr ''a''), (''priority'', PStr ''urgent'')],
                 PDict [(''id'', PStr ''x'')]]) \<and>
   load healthy store_path (disk_with text_urgent_first) =
     Inl (ValueError (InvalidPriority ''urgent''))"
proof
  show "json_loads healthy text_urgent_first =
     Inr (PList [PDict [(''title'', PStr ''a''), (''priority'', PStr ''urgent'')],
                 PDict [(''id'', PStr ''x'')]])"
    by (rule loads_urgent_first)
  show "load healthy store_path (disk_with text_urgent_first) =
     Inl (ValueError (InvalidPriority ''urgent''))"
    by code_simp
qed

lemma map_of_present: "k \<in> set (map fst d) \<Longrightarrow> \<exists>v. map_of d k = Some v"
  by (induction d) auto

lemma post_init_priority_raises:
  "post_init_priority t = Inl e \<Longrightarrow> \<exists>s. e = ValueError (InvalidPriority s)"
  by (auto simp: post_init_priority_def Let_def split: pyval.splits if_splits)

lemma post_init_priority_keeps_status:
  "post_init_priority t = Inr t' \<Longrightarrow> status t' = status t"
  by (auto simp: post_init_priority_def Let_def split: pyval.splits if_splits)

lemma post_init_normalise:
  "\<exists>t3. priority t3 = priority t \<and> status t3 = status t \<and>
     post_init E i t =
       (case post_init_priority t3 of Inl e \<Rightarrow> Inl e | Inr t4 \<Rightarrow> post_init_status t4)"
proof -
  define t3 where "t3 =
    (let t1 = (if id' t = PNone then t\<lparr>id' := PStr (uuid4 E i)\<rparr> else t);
         t2 = (if created_at t1 = PNone then t1\<lparr>created_at := PStr (now E i)\<rparr> else t1)
     in case title t2 of PStr s \<Rightarrow> t2\<lparr>title := PStr (py_strip s)\<rparr> | _ \<Rightarrow> t2)"
  have "priority t3 = priority t" "status t3 = status t"
    by (simp_all add: t3_def Let_def split: pyval.splits)
  moreover have "post_init E i t =
      (case post_init_priority t3 of Inl e \<Rightarrow> Inl e | Inr t4 \<Rightarrow> post_init_status t4)"
    by (simp add: post_init_def t3_def Let_def)
  ultimately show ?thesis by blast
qed

lemma post_init_bad_priority:
  assumes "priority t = PStr s" and "py_lower s \<notin> {''high'', ''medium'', ''low''}"
  shows "post_init E i t = Inl (ValueError (InvalidPriority s))"
proof -
  from post_init_normalise obtain t3 where t3: "priority t3 = priority t"
    "post_init E i t =
       (case post_init_priority t3 of Inl e \<Rightarrow> Inl e | Inr t4 \<Rightarrow> post_init_status t4)"
    by blast
  have "post_init_priority t3 = Inl (ValueError (InvalidPriority s))"
    using assms t3(1) by (simp add: post_init_priority_def Let_def)
  then show ?thesis using t3(2) by simp
qed

lemma post_init_bad_status:
  assumes "status t = PStr s" and "py_lower s \<notin> {''active'', ''completed''}"
  shows "\<exists>m. post_init E i t = Inl (ValueError m)"
proof -
  from post_init_normalise obtain t3 where st: "status t3 = status t"
    and run: "post_init E i t =
       (case post_init_priority t3 of Inl e \<Rightarrow> Inl e | Inr t4 \<Rightarrow> post_init_status t4)"
    by blast
  show ?thesis
  proof (cases "post_init_priority t3")
    case (Inl e)
    then show ?thesis using run post_init_priority_raises [OF Inl] by auto
  next
    case (Inr t4)
    from post_init_priority_keeps_status [OF Inr] st assms(1) have "status t4 = PStr s" by simp
    then have "post_init_status t4 = Inl (ValueError (InvalidStatus s))"
      using assms(2) by (simp add: post_init_status_def Let_def)
    then show ?thesis using run Inr by simp
  qed
qed

lemma from_dict_with_title:
  "map_of d ''title'' = Some ttl \<Longrightarrow>
     from_dict E i (PDict d) =
       post_init E i
         \<lparr>title = ttl,
          description = dict_get d ''description'' PNone,
          priority = dict_get d ''priority'' (PStr ''medium''),
          due_date = dict_get d ''due_date'' PNone,
          status = dict_get d ''status'' (PStr ''active''),
          id' = dict_get d ''id'' PNone,
          created_at = dict_get d ''created_at'' PNone,
          completed_at = dict_get d ''completed_at'' PNone\<rparr>"
proof -
  assume t: "map_of d ''title'' = Some ttl"
  then have "''title'' \<in> set (map fst d)"
    by (metis map_of_eq_None_iff option.distinct(1) set_map)
  with t show ?thesis by (simp add: from_dict_def dict_item_def)
qed

text \<open>
  C10, as the code has it. The file can be read and holds a list; the elements before
  some dictionary with a title all become tasks. If the priority of that dictionary is
  a text whose lower-case form is not \<open>high\<close>, \<open>medium\<close> or \<open>low\<close>, \<open>load\<close> raises
  \<open>ValueError\<close> for it; if its status is a text whose lower-case form is not \<open>active\<close>
  or \<open>completed\<close>, \<open>load\<close> raises a \<open>ValueError\<close>. A \<open>ValueError\<close> is none of
  \<open>StorageError\<close>, \<open>TaskNotFoundError\<close> and \<open>KeyError\<close>.
\<close>

theorem load_invalid_enum_text:
  "read_text E fs p = Inr content \<Longrightarrow>
   json_loads E content = Inr (PList (pre @ PDict d # post)) \<Longrightarrow>
   from_dicts E 0 pre = Inr ts \<Longrightarrow> ''title'' \<in> set (map fst d) \<Longrightarrow>
     (\<forall>s. map_of d ''priority'' = Some (PStr s) \<and> py_lower s \<notin> {''high'', ''medium'', ''low''} \<longrightarrow>
        load E p fs = Inl (ValueError (InvalidPriority s))) \<and>
     (\<forall>s. map_of d ''status'' = Some (PStr s) \<and> py_lower s \<notin> {''active'', ''completed''} \<longrightarrow>
        (\<exists>m. load E p fs = Inl (ValueError m))) \<and>
     (\<forall>m x i k. ValueError m \<noteq> StorageError x \<and> ValueError m \<noteq> TaskNotFoundError i \<and>
        ValueError m \<noteq> KeyError k)"
proof -
  assume rd: "read_text E fs p = Inr content"
    and js: "json_loads E content = Inr (PList (pre @ PDict d # post))"
    and pre: "from_dicts E 0 pre = Inr ts"
    and ttl: "''title'' \<in> set (map fst d)"
  from map_of_present [OF ttl] obtain v where v: "map_of d ''title'' = Some v" by blast
  have stop: "load E p fs = Inl (ValueError m)"
    if "from_dict E (length pre) (PDict d) = Inl (ValueError m)" for m
    using that by (simp add: load_def load_of_list [OF rd js] from_dicts_stops [OF pre])
  have a: "load E p fs = Inl (ValueError (InvalidPriority s))"
    if "map_of d ''priority'' = Some (PStr s)" "py_lower s \<notin> {''high'', ''medium'', ''low''}" for s
  proof (rule stop)
    show "from_dict E (length pre) (PDict d) = Inl (ValueError (InvalidPriority s))"
      unfolding from_dict_with_title [OF v]
      by (rule post_init_bad_priority [where s = s]) (use that in \<open>simp_all add: dict_get_def\<close>)
  qed
  have b: "\<exists>m. load E p fs = Inl (ValueError m)"
    if "map_of d ''status'' = Some (PStr s)" "py_lower s \<notin> {''active'', ''completed''}" for s
  proof -
    have "\<exists>m. from_dict E (length pre) (PDict d) = Inl (ValueError m)"
      unfolding from_dict_with_title [OF v]
      by (rule post_init_bad_status [where s = s]) (use that in \<open>simp_all add: dict_get_def\<close>)
    then show ?thesis using stop by blast
  qed
  show ?thesis using a b by simp
qed

theorem load_invalid_enum_text_witness:
  "load healthy store_path (disk_with text_bad_priority) =
     Inl (ValueError (InvalidPriority ''urgent'')) \<and>
   (\<exists>m. load healthy store_path (disk_with text_bad_status) = Inl (ValueError m))"
proof
  have "py_lower ''urgent'' \<notin> {''high'', ''medium'', ''low''}" by code_simp
  with load_invalid_enum_text [OF read_disk_with loads_bad_priority]
  show "load healthy store_path (disk_with text_bad_priority) =
     Inl (ValueError (InvalidPriority ''urgent''))" by simp
next
  have "py_lower ''done'' \<notin> {''active'', ''completed''}" by code_simp
  with load_invalid_enum_text [OF read_disk_with loads_bad_status from_dicts_first_ok]
  show "\<exists>m. load healthy store_path (disk_with text_bad_status) = Inl (ValueError m)" by simp
qed

text \<open>
  The claim C10 as written fails: the priority \<open>HIGH\<close> and the status \<open>Active\<close> are
  texts outside the lower-case sets, and \<open>load\<close> returns the task, because
  \<open>__post_init__\<close> lowers the text before it compares.
\<close>

theorem load_invalid_enum_text_counterexample:
  "json_loads healthy text_upper_case =
     Inr (PList [PDict [(''id'', PStr ''a''), (''title'', PStr ''X''), (''description'', PNone),
                        (''priority'', PStr ''HIGH''), (''due_date'', PNone),
                        (''status'', PStr ''Active''),
                        (''created_at'', PStr ''2026-01-01T09:00:00''),
                        (''completed_at'', PNone)]]) \<and>
   ''HIGH'' \<notin> {''high'', ''medium'', ''low''} \<and> ''Active'' \<notin> {''active'', ''completed''} \<and>
   load healthy store_path (disk_with text_upper_case) = Inr [task_a]"
proof (intro conjI)
  show "json_loads healthy text_upper_case =
     Inr (PList [PDict [(''id'', PStr ''a''), (''title'', PStr ''X''), (''description'', PNone),
                        (''priority'', PStr ''HIGH''), (''due_date'', PNone),
                        (''status'', PStr ''Active''),
                        (''created_at'', PStr ''2026-01-01T09:00:00''),
                        (''completed_at'', PNone)]])"
    unfolding healthy_def by code_simp
  show "''HIGH'' \<notin> {''high'', ''medium'', ''low''}" by simp
  show "''Active'' \<notin> {''active'', ''completed''}" by simp
  show "load healthy store_path (disk_with text_upper_case) = Inr [task_a]" by code_simp
qed

section \<open>What \<open>save\<close> writes\<close>

text \<open>
  C1, as the code has it. The temporary file has been written and the rename then
  fails with the error \<open>e\<close>. Then \<open>save\<close> raises a \<open>StorageError\<close> and the store's
  file holds what it held before the call. When the removal of the temporary file is
  not refused, the \<open>StorageError\<close> is the one for \<open>e\<close> and nothing exists at the path
  of the temporary file afterwards.
\<close>

theorem save_rename_failure:
  "fst (write_json E fs (sibling p ''.tmp'') (PList (map to_dict tasks))) = Inr () \<Longrightarrow>
   fst (rename E (snd (write_json E fs (sibling p ''.tmp'') (PList (map to_dict tasks))))
          (sibling p ''.tmp'') p) = Inl e \<Longrightarrow>
     (\<exists>e'. fst (save E p fs tasks) = Inl (StorageError (SaveFailed e'))) \<and>
     files (snd (save E p fs tasks)) p = files fs p \<and>
     (fault E OpUnlink (sibling p ''.tmp'') = None \<longrightarrow>
        fst (save E p fs tasks) = Inl (StorageError (SaveFailed e)) \<and>
        \<not> path_exists (snd (save E p fs tasks)) (sibling p ''.tmp''))"
proof -
  let ?tmp = "sibling p ''.tmp''"
  let ?data = "PList (map to_dict tasks)"
  assume w: "fst (write_json E fs ?tmp ?data) = Inr ()"
    and r: "fst (rename E (snd (write_json E fs ?tmp ?data)) ?tmp p) = Inl e"
  from write_json_ok [OF w] obtain s where
    fs1: "snd (write_json E fs ?tmp ?data) = fs\<lparr>files := (files fs)(?tmp \<mapsto> Text s)\<rparr>"
    and nd: "\<not> is_dir fs ?tmp" by blast
  let ?fs1 = "fs\<lparr>files := (files fs)(?tmp \<mapsto> Text s)\<rparr>"
  have wj: "write_json E fs ?tmp ?data = (Inr (), ?fs1)"
    using w fs1 by (metis prod.collapse)
  have rn: "rename E ?fs1 ?tmp p = (Inl e, ?fs1)"
    using r rename_failed [OF r] fs1 by (metis prod.collapse)
  have body: "atomic_write_try E p fs ?tmp ?data = (Inl (OSError e), ?fs1)"
    by (simp add: atomic_write_try_def wj rn)
  have ex: "path_exists ?fs1 ?tmp" by (simp add: path_exists_def)
  have neq: "?tmp \<noteq> p" by (rule sibling_neq) simp
  show ?thesis
  proof (cases "fault E OpUnlink ?tmp = None")
    case True
    then have ul: "unlink E ?fs1 ?tmp = (Inr (), fs\<lparr>files := (files fs)(?tmp := None)\<rparr>)"
      by (simp add: unlink_def)
    have aw: "atomic_write E p fs ?data =
        (Inl (OSError e), fs\<lparr>files := (files fs)(?tmp := None)\<rparr>)"
      by (simp add: atomic_write_def Let_def body ex ul)
    have sv: "save E p fs tasks =
        (Inl (StorageError (SaveFailed e)), fs\<lparr>files := (files fs)(?tmp := None)\<rparr>)"
      by (simp add: save_def aw)
    show ?thesis
      using nd neq by (simp add: sv path_exists_def is_dir_def)
  next
    case False
    then have ul: "unlink E ?fs1 ?tmp = (Inl Fault, ?fs1)"
      by (simp add: unlink_def)
    have aw: "atomic_write E p fs ?data = (Inl (OSError Fault), ?fs1)"
      by (simp add: atomic_write_def Let_def body ex ul)
    have sv: "save E p fs tasks = (Inl (StorageError (SaveFailed Fault)), ?fs1)"
      by (simp add: save_def aw)
    show ?thesis
      using False neq by (auto simp: sv)
  qed
qed

text \<open>
  C5. The temporary file has been written and the rename has succeeded. Then, whatever
  the copy to the backup does, \<open>save\<close> returns without an exception and the store's
  file holds the text that \<open>json.dump\<close> wrote; when the copy is not refused and no
  directory is in its way, the backup holds that text too.
\<close>

theorem save_backup_best_effort:
  "fst (write_json E fs (sibling p ''.tmp'') (PList (map to_dict tasks))) = Inr () \<Longrightarrow>
   fst (rename E (snd (write_json E fs (sibling p ''.tmp'') (PList (map to_dict tasks))))
          (sibling p ''.tmp'') p) = Inr () \<Longrightarrow>
     \<exists>s. json_dump E (PList (map to_dict tasks)) = Dumped s \<and>
       fst (save E p fs tasks) = Inr () \<and>
       files (snd (save E p fs tasks)) p = Some (Text s) \<and>
       (fault E OpCopy p = None \<and> \<not> is_dir fs (sibling p ''.backup'') \<longrightarrow>
          files (snd (save E p fs tasks)) (sibling p ''.backup'') = Some (Text s))"
proof -
  let ?bak = "sibling p ''.backup''"
  assume w: "fst (write_json E fs (sibling p ''.tmp'') (PList (map to_dict tasks))) = Inr ()"
    and r: "fst (rename E (snd (write_json E fs (sibling p ''.tmp'') (PList (map to_dict tasks))))
          (sibling p ''.tmp'') p) = Inr ()"
  from save_ok_content [OF w r] obtain s where
    d: "json_dump E (PList (map to_dict tasks)) = Dumped s"
    and sv: "save E p fs tasks =
         (Inr (), snd (copy2 E (fs\<lparr>files := ((files fs)(sibling p ''.tmp'' := None))(p \<mapsto> Text s)\<rparr>) p ?bak))"
    and pd: "is_dir fs (parent p)"
    by blast
  let ?fs2 = "fs\<lparr>files := ((files fs)(sibling p ''.tmp'' := None))(p \<mapsto> Text s)\<rparr>"
  have target: "files (snd (copy2 E ?fs2 p ?bak)) p = Some (Text s)"
    by (simp add: copy2_keeps_source)
  have backup: "files (snd (copy2 E ?fs2 p ?bak)) ?bak = Some (Text s)"
    if "fault E OpCopy p = None" "\<not> is_dir fs ?bak"
  proof (rule copy2_ok)
    show "files ?fs2 p = Some (Text s)" by simp
    show "fault E OpCopy p = None" by (rule that)
    show "\<not> is_dir ?fs2 ?bak" using that(2) by (simp add: is_dir_def)
    show "is_dir ?fs2 (parent ?bak)" using pd by (simp add: parent_sibling is_dir_def)
    show "?bak \<noteq> p" by (rule sibling_neq) simp
  qed
  show ?thesis using d sv target backup by simp
qed

theorem save_rename_failure_witness:
  "fst (save no_rename store_path disk_ab [task_b]) = Inl (StorageError (SaveFailed Fault)) \<and>
   files (snd (save no_rename store_path disk_ab [task_b])) store_path = Some (Text text_ab) \<and>
   \<not> path_exists (snd (save no_rename store_path disk_ab [task_b])) (sibling store_path ''.tmp'')"
proof -
  have w: "fst (write_json no_rename disk_ab (sibling store_path ''.tmp'')
             (PList (map to_dict [task_b]))) = Inr ()"
    by code_simp
  have r: "fst (rename no_rename
             (snd (write_json no_rename disk_ab (sibling store_path ''.tmp'')
                (PList (map to_dict [task_b]))))
             (sibling store_path ''.tmp'') store_path) = Inl Fault"
    by code_simp
  have u: "fault no_rename OpUnlink (sibling store_path ''.tmp'') = None"
    by (simp add: no_rename_def)
  from save_rename_failure [OF w r] u show ?thesis
    by (simp add: disk_ab_def disk_with_def)
qed

text \<open>
  The claim C1 as written fails in its part on the temporary file: on a machine that
  refuses the rename and then the removal, the temporary file has been written, the
  rename fails, and after \<open>save\<close> has raised its \<open>StorageError\<close> the temporary file is
  still there. The \<open>unlink\<close> of the \<open>except\<close> clause raises, and nothing else removes
  the file.
\<close>

theorem save_rename_failure_counterexample:
  "fst (write_json no_rename_no_unlink disk_ab (sibling store_path ''.tmp'')
          (PList (map to_dict [task_b]))) = Inr () \<and>
   fst (rename no_rename_no_unlink
          (snd (write_json no_rename_no_unlink disk_ab (sibling store_path ''.tmp'')
             (PList (map to_dict [task_b]))))
          (sibling store_path ''.tmp'') store_path) = Inl Fault \<and>
   fst (save no_rename_no_unlink store_path disk_ab [task_b]) =
     Inl (StorageError (SaveFailed Fault)) \<and>
   path_exists (snd (save no_rename_no_unlink store_path disk_ab [task_b]))
     (sibling store_path ''.tmp'')"
proof (intro conjI)
  show "fst (write_json no_rename_no_unlink disk_ab (sibling store_path ''.tmp'')
          (PList (map to_dict [task_b]))) = Inr ()"
    by code_simp
  show "fst (rename no_rename_no_unlink
          (snd (write_json no_rename_no_unlink disk_ab (sibling store_path ''.tmp'')
             (PList (map to_dict [task_b]))))
          (sibling store_path ''.tmp'') store_path) = Inl Fault"
    by code_simp
  show "fst (save no_rename_no_unlink store_path disk_ab [task_b]) =
     Inl (StorageError (SaveFailed Fault))"
    by code_simp
  show "path_exists (snd (save no_rename_no_unlink store_path disk_ab [task_b]))
     (sibling store_path ''.tmp'')"
    by code_simp
qed

theorem save_backup_best_effort_witness:
  "(\<exists>s. json_dump no_copy (PList (map to_dict [task_b])) = Dumped s \<and>
      fst (save no_copy store_path disk_ab [task_b]) = Inr () \<and>
      files (snd (save no_copy store_path disk_ab [task_b])) store_path = Some (Text s)) \<and>
   files (snd (save healthy store_path disk_ab [task_b])) (sibling store_path ''.backup'') =
     files (snd (save healthy store_path disk_ab [task_b])) store_path"
proof
  have w: "fst (write_json no_copy disk_ab (sibling store_path ''.tmp'')
             (PList (map to_dict [task_b]))) = Inr ()"
    by code_simp
  have r: "fst (rename no_copy
             (snd (write_json no_copy disk_ab (sibling store_path ''.tmp'')
                (PList (map to_dict [task_b]))))
             (sibling store_path ''.tmp'') store_path) = Inr ()"
    by code_simp
  from save_backup_best_effort [OF w r]
  show "\<exists>s. json_dump no_copy (PList (map to_dict [task_b])) = Dumped s \<and>
      fst (save no_copy store_path disk_ab [task_b]) = Inr () \<and>
      files (snd (save no_copy store_path disk_ab [task_b])) store_path = Some (Text s)"
    by blast
next
  have w: "fst (write_json healthy disk_ab (sibling store_path ''.tmp'')
             (PList (map to_dict [task_b]))) = Inr ()"
    by code_simp
  have r: "fst (rename healthy
             (snd (write_json healthy disk_ab (sibling store_path ''.tmp'')
                (PList (map to_dict [task_b]))))
             (sibling store_path ''.tmp'') store_path) = Inr ()"
    by code_simp
  have c: "fault healthy OpCopy store_path = None" by (simp add: healthy_def)
  have d: "\<not> is_dir disk_ab (sibling store_path ''.backup'')" by code_simp
  from save_backup_best_effort [OF w r] c d
  show "files (snd (save healthy store_path disk_ab [task_b])) (sibling store_path ''.backup'') =
     files (snd (save healthy store_path disk_ab [task_b])) store_path"
    by auto
qed

section \<open>Saving, then loading\<close>

lemma py_strip_stripped: "stripped s \<Longrightarrow> py_strip s = s"
proof (cases s)
  case Nil
  then show ?thesis by (simp add: py_strip_def)
next
  case (Cons c cs)
  assume "stripped s"
  with Cons have h: "\<not> py_isspace (hd s)" and l: "\<not> py_isspace (last s)"
    by (simp_all add: stripped_def)
  from Cons have ne: "s \<noteq> []" by simp
  from h ne have front: "dropWhile py_isspace s = s" by (cases s) simp_all
  from ne have "hd (rev s) = last s" by (simp add: hd_rev)
  with l have "\<not> py_isspace (hd (rev s))" by simp
  moreover from ne have "rev s \<noteq> []" by simp
  ultimately have rear: "dropWhile py_isspace (rev s) = rev s"
    by (cases "rev s") simp_all
  show ?thesis by (simp add: py_strip_def front rear)
qed

lemma py_lower_values:
  "py_lower ''high'' = ''high''" "py_lower ''medium'' = ''medium''" "py_lower ''low'' = ''low''"
  "py_lower ''active'' = ''active''" "py_lower ''completed'' = ''completed''"
  by code_simp+

lemma py_lower_priority_value: "py_lower (priority_value q) = priority_value q"
  by (cases q) (simp_all add: py_lower_values)

lemma py_lower_status_value: "py_lower (status_value q) = status_value q"
  by (cases q) (simp_all add: py_lower_values)

lemma post_init_priority_value:
  "priority t = PStr (priority_value q) \<Longrightarrow>
     post_init_priority t = Inr (t\<lparr>priority := PPriority q\<rparr>)"
  by (cases q) (simp_all add: post_init_priority_def py_lower_values Let_def)

lemma post_init_status_value:
  "status t = PStr (status_value q) \<Longrightarrow>
     post_init_status t = Inr (t\<lparr>status := PStatus q\<rparr>)"
  by (cases q) (simp_all add: post_init_status_def py_lower_values Let_def)

lemma from_dict_to_dict:
  assumes "well_typed t" and "title_stripped t"
  shows "from_dict E i (to_dict t) = Inr t"
proof -
  obtain ttl dsc pri due sta ident cre com where t:
    "t = \<lparr>title = ttl, description = dsc, priority = pri, due_date = due, status = sta,
          id' = ident, created_at = cre, completed_at = com\<rparr>"
    by (cases t) auto
  from assms(1) t obtain s q r i' c where f: "ttl = PStr s" "pri = PPriority q"
    "sta = PStatus r" "ident = PStr i'" "cre = PStr c"
    by (auto simp: well_typed_def is_str_def is_priority_def is_status_def split: pyval.splits)
  from assms(2) t f have st: "py_strip s = s"
    by (simp add: title_stripped_def py_strip_stripped)
  have "from_dict E i (to_dict t) =
      post_init E i
        \<lparr>title = PStr s, description = dsc, priority = PStr (priority_value q),
         due_date = due, status = PStr (status_value r), id' = PStr i',
         created_at = PStr c, completed_at = com\<rparr>"
    by (simp add: t f from_dict_def to_dict_def dict_item_def dict_get_def)
  also have "\<dots> = Inr t"
    by (simp add: post_init_def Let_def st post_init_priority_value post_init_status_value t f)
  finally show ?thesis .
qed

lemma from_dicts_to_dicts:
  "list_all well_typed ts \<Longrightarrow> list_all title_stripped ts \<Longrightarrow>
     from_dicts E i (map to_dict ts) = Inr ts"
  by (induction ts arbitrary: i) (simp_all add: from_dict_to_dict)

text \<open>
  C2, as the code has it. The tasks follow the annotations of their fields and their
  titles are stripped; \<open>save\<close> returns without an exception; the file can be read; and
  \<open>json.loads\<close> gives back the document that \<open>json.dump\<close> wrote. Then \<open>load\<close> returns
  the very list that was saved: the same tasks, field by field, in the same order.
\<close>

theorem save_then_load:
  "list_all well_typed tasks \<Longrightarrow> list_all title_stripped tasks \<Longrightarrow>
   fst (save E p fs tasks) = Inr () \<Longrightarrow> fault E OpRead p = None \<Longrightarrow>
   (\<forall>s. json_dump E (PList (map to_dict tasks)) = Dumped s \<longrightarrow>
        json_loads E s = Inr (PList (map to_dict tasks))) \<Longrightarrow>
     load E p (snd (save E p fs tasks)) = Inr tasks"
proof -
  assume wt: "list_all well_typed tasks" and ts: "list_all title_stripped tasks"
    and ok: "fst (save E p fs tasks) = Inr ()" and rd: "fault E OpRead p = None"
    and js: "\<forall>s. json_dump E (PList (map to_dict tasks)) = Dumped s \<longrightarrow>
        json_loads E s = Inr (PList (map to_dict tasks))"
  from save_ok_steps [OF ok] save_ok_content obtain s where
    d: "json_dump E (PList (map to_dict tasks)) = Dumped s"
    and sv: "save E p fs tasks =
         (Inr (), snd (copy2 E (fs\<lparr>files := ((files fs)(sibling p ''.tmp'' := None))(p \<mapsto> Text s)\<rparr>) p
                    (sibling p ''.backup'')))"
    by blast
  have "files (snd (save E p fs tasks)) p = Some (Text s)"
    by (simp add: sv copy2_keeps_source)
  then have "read_text E (snd (save E p fs tasks)) p = Inr s"
    using rd by (simp add: read_text_def)
  moreover from js d have "json_loads E s = Inr (PList (map to_dict tasks))" by simp
  ultimately have "load_try E p (snd (save E p fs tasks)) = from_dicts E 0 (map to_dict tasks)"
    by (rule load_of_list)
  then show ?thesis
    by (simp add: load_def from_dicts_to_dicts [OF wt ts])
qed

theorem save_then_load_witness:
  "load healthy store_path (snd (save healthy store_path disk_ab [task_b, task_a])) =
     Inr [task_b, task_a]"
proof -
  have wt: "list_all well_typed [task_b, task_a]" by code_simp
  have ts: "list_all title_stripped [task_b, task_a]" by code_simp
  have ok: "fst (save healthy store_path disk_ab [task_b, task_a]) = Inr ()" by code_simp
  have rd: "fault healthy OpRead store_path = None" by (simp add: healthy_def)
  have "case json_dump healthy (PList (map to_dict [task_b, task_a])) of
          Dumped s \<Rightarrow> json_loads healthy s = Inr (PList (map to_dict [task_b, task_a]))
        | NotSerializable s \<Rightarrow> True"
    by code_simp
  then have js: "\<forall>s. json_dump healthy (PList (map to_dict [task_b, task_a])) = Dumped s \<longrightarrow>
        json_loads healthy s = Inr (PList (map to_dict [task_b, task_a]))"
    by (auto split: dump_result.splits)
  from save_then_load [OF wt ts ok rd js] show ?thesis .
qed

text \<open>
  The claim C2 as written fails: a title with a space on each side is a text, the task
  follows its annotations, the store saves it; what \<open>load\<close> returns has the title
  without the spaces, because \<open>__post_init__\<close> strips it.
\<close>

theorem save_then_load_counterexample:
  "well_typed task_padded \<and>
   fst (save healthy store_path disk_ab [task_padded]) = Inr () \<and>
   load healthy store_path (snd (save healthy store_path disk_ab [task_padded])) = Inr [task_a] \<and>
   title task_a \<noteq> title task_padded"
proof (intro conjI)
  show "well_typed task_padded" by code_simp
  show "fst (save healthy store_path disk_ab [task_padded]) = Inr ()" by code_simp
  show "load healthy store_path (snd (save healthy store_path disk_ab [task_padded])) = Inr [task_a]"
    by code_simp
  show "title task_a \<noteq> title task_padded" by (simp add: task_a_def task_padded_def)
qed

section \<open>Making the store\<close>

lemma not_nil_ancestor: "[] \<notin> set (ancestors_and_self d)"
  by (auto simp: ancestors_and_self_def)

lemma self_ancestor: "d \<noteq> [] \<Longrightarrow> d \<in> set (ancestors_and_self d)"
proof -
  assume "d \<noteq> []"
  then have "length d \<in> set [1..<Suc (length d)]" by (cases d) simp_all
  then have "take (length d) d \<in> set (ancestors_and_self d)"
    unfolding ancestors_and_self_def by (metis imageI set_map)
  then show ?thesis by simp
qed

lemma shorter_ancestor: "a \<in> set (ancestors_and_self d) \<Longrightarrow> length a \<le> length d"
  by (auto simp: ancestors_and_self_def)

lemma path_not_ancestor: "p \<notin> set (ancestors_and_self (parent p))"
proof
  assume "p \<in> set (ancestors_and_self (parent p))"
  then have le: "length p \<le> length (parent p)" by (rule shorter_ancestor)
  have "p = []"
  proof (rule ccontr)
    assume "p \<noteq> []"
    then have "length (parent p) < length p" by (simp add: parent_def)
    with le show False by simp
  qed
  with \<open>p \<in> set (ancestors_and_self (parent p))\<close> show False
    by (simp add: parent_def ancestors_and_self_def)
qed

lemma mkdir_each_ok:
  "fst (mkdir_each E fs ds) = Inr () \<Longrightarrow>
     files (snd (mkdir_each E fs ds)) = files fs \<and>
     dirs (snd (mkdir_each E fs ds)) = dirs fs \<union> (set ds - {[]})"
proof (induction ds arbitrary: fs)
  case Nil
  then show ?case by simp
next
  case (Cons d ds)
  show ?case
  proof (cases "is_dir fs d")
    case True
    with Cons.prems have "fst (mkdir_each E fs ds) = Inr ()" by simp
    from Cons.IH [OF this] True show ?thesis by (auto simp: is_dir_def)
  next
    case False
    with Cons.prems have f: "files fs d = None" "fault E OpMkdir d = None"
      by (auto split: if_splits)
    with False Cons.prems
    have "fst (mkdir_each E (fs\<lparr>dirs := insert d (dirs fs)\<rparr>) ds) = Inr ()" by simp
    from Cons.IH [OF this] False f show ?thesis by (auto simp: is_dir_def)
  qed
qed

lemma mkdir_each_there:
  "\<forall>d\<in>set ds. is_dir fs d \<Longrightarrow> mkdir_each E fs ds = (Inr (), fs)"
  by (induction ds) simp_all

lemma mkdir_each_succeeds:
  "\<forall>d\<in>set ds. is_dir fs d \<or> (files fs d = None \<and> fault E OpMkdir d = None) \<Longrightarrow>
     fst (mkdir_each E fs ds) = Inr ()"
proof (induction ds arbitrary: fs)
  case Nil
  then show ?case by simp
next
  case (Cons d ds)
  show ?case
  proof (cases "is_dir fs d")
    case True
    with Cons show ?thesis by simp
  next
    case False
    let ?fs = "fs\<lparr>dirs := insert d (dirs fs)\<rparr>"
    from False Cons.prems have f: "files fs d = None" "fault E OpMkdir d = None" by auto
    have "\<forall>d'\<in>set ds. is_dir ?fs d' \<or> (files ?fs d' = None \<and> fault E OpMkdir d' = None)"
      using Cons.prems by (auto simp: is_dir_def)
    from Cons.IH [OF this] False f show ?thesis by simp
  qed
qed

lemma write_text_ok:
  "fst (write_text E fs p s) = Inr () \<Longrightarrow>
     snd (write_text E fs p s) = fs\<lparr>files := (files fs)(p \<mapsto> Text s)\<rparr>"
  by (auto simp: write_text_def open_w_def split: if_splits option.splits)

lemma write_text_succeeds:
  "fault E OpOpen p = None \<Longrightarrow> fault E OpWrite p = None \<Longrightarrow> \<not> is_dir fs p \<Longrightarrow>
   is_dir fs (parent p) \<Longrightarrow> fst (write_text E fs p s) = Inr ()"
  by (simp add: write_text_def open_w_def)

lemma init_ok:
  assumes "fst (init E fs p) = Inr ()"
  shows "snd (init E fs p) =
     \<lparr>files = (if path_exists fs p then files fs else (files fs)(p \<mapsto> Text ''[]'')),
      dirs = dirs fs \<union> set (ancestors_and_self (parent p))\<rparr>"
proof -
  let ?ds = "ancestors_and_self (parent p)"
  obtain r1 fs1 where m: "mkdir_each E fs ?ds = (r1, fs1)" by (cases "mkdir_each E fs ?ds")
  have r1: "r1 = Inr ()"
    using assms m by (cases r1) (simp_all add: init_def mkdir_parents_def)
  with m have "fst (mkdir_each E fs ?ds) = Inr ()" by simp
  from mkdir_each_ok [OF this] m
  have f1: "files fs1 = files fs" and d1: "dirs fs1 = dirs fs \<union> set ?ds"
    using not_nil_ancestor [of "parent p"] by auto
  have fs1: "fs1 = \<lparr>files = files fs, dirs = dirs fs \<union> set ?ds\<rparr>"
    using f1 d1 by (cases fs1) simp
  have ex: "path_exists fs1 p = path_exists fs p"
    using f1 d1 path_not_ancestor [of p] by (auto simp: path_exists_def is_dir_def)
  show ?thesis
  proof (cases "path_exists fs p")
    case True
    then show ?thesis using m r1 ex fs1 by (simp add: init_def mkdir_parents_def)
  next
    case False
    obtain r2 fs2 where w: "write_text E fs1 p ''[]'' = (r2, fs2)"
      by (cases "write_text E fs1 p ''[]''")
    have r2: "r2 = Inr ()"
      using assms m r1 ex False w by (cases r2) (simp_all add: init_def mkdir_parents_def)
    with w have "fst (write_text E fs1 p ''[]'') = Inr ()" by simp
    from write_text_ok [OF this] w have "fs2 = fs1\<lparr>files := (files fs1)(p \<mapsto> Text ''[]'')\<rparr>"
      by simp
    then show ?thesis
      using m r1 ex False w r2 fs1 by (simp add: init_def mkdir_parents_def)
  qed
qed

lemma init_succeeds:
  assumes "\<forall>d\<in>set (ancestors_and_self (parent p)).
             is_dir fs d \<or> (files fs d = None \<and> fault E OpMkdir d = None)"
    and "fault E OpOpen p = None" and "fault E OpWrite p = None"
  shows "fst (init E fs p) = Inr ()"
proof -
  let ?ds = "ancestors_and_self (parent p)"
  obtain r1 fs1 where m: "mkdir_each E fs ?ds = (r1, fs1)" by (cases "mkdir_each E fs ?ds")
  from mkdir_each_succeeds [OF assms(1)] m have r1: "r1 = Inr ()" by simp
  with m have "fst (mkdir_each E fs ?ds) = Inr ()" by simp
  from mkdir_each_ok [OF this] m
  have d1: "dirs fs1 = dirs fs \<union> set ?ds"
    using not_nil_ancestor [of "parent p"] by auto
  have pd: "is_dir fs1 (parent p)"
    using d1 self_ancestor [of "parent p"] by (auto simp: is_dir_def)
  show ?thesis
  proof (cases "path_exists fs1 p")
    case True
    then show ?thesis using m r1 by (simp add: init_def mkdir_parents_def)
  next
    case False
    then have "\<not> is_dir fs1 p" by (simp add: path_exists_def)
    from write_text_succeeds [OF assms(2) assms(3) this pd]
    have "fst (write_text E fs1 p ''[]'') = Inr ()" .
    then show ?thesis
      using m r1 False by (auto simp: init_def mkdir_parents_def split: prod.splits sum.splits)
  qed
qed

lemma init_again:
  assumes "fst (init E fs p) = Inr ()"
  shows "init E' (snd (init E fs p)) p = (Inr (), snd (init E fs p))"
proof -
  let ?fs' = "snd (init E fs p)"
  note eq = init_ok [OF assms]
  have "\<forall>d\<in>set (ancestors_and_self (parent p)). is_dir ?fs' d"
    by (simp add: eq is_dir_def)
  then have m: "mkdir_each E' ?fs' (ancestors_and_self (parent p)) = (Inr (), ?fs')"
    by (rule mkdir_each_there)
  have "path_exists ?fs' p"
    by (auto simp: eq path_exists_def is_dir_def)
  with m show ?thesis by (simp add: init_def mkdir_parents_def)
qed

lemma get_all_after_init:
  assumes "fst (init E fs p) = Inr ()" and "\<not> path_exists fs p"
    and "fault E OpRead p = None" and "json_loads E ''[]'' = Inr (PList [])"
  shows "get_all E p (snd (init E fs p)) = Inr []"
proof -
  have "files (snd (init E fs p)) p = Some (Text ''[]'')"
    using assms(2) by (simp add: init_ok [OF assms(1)])
  then have "read_text E (snd (init E fs p)) p = Inr ''[]''"
    using assms(3) by (simp add: read_text_def)
  from load_of_list [OF this assms(4)] show ?thesis
    by (simp add: get_all_def load_def)
qed

text \<open>
  C8. On a machine that refuses nothing on the way (each directory above the file is
  there or can be made, and the file can be opened and written), \<open>__init__\<close> returns
  without an exception. Whenever it does, the directory of the file and every
  directory above it exist afterwards and no other directory was made; the files are
  those of before if something was at the path, and otherwise those of before and the
  store's file with the text \<open>[]\<close>; \<open>get_all\<close> on a store just made returns the empty
  list, when the file can be read and \<open>json.loads\<close> reads \<open>[]\<close> as the empty list; and
  a second \<open>__init__\<close> on the same path, on any machine, returns without an exception
  and leaves the file system as it is.
\<close>

theorem init_creates_store:
  "((\<forall>d\<in>set (ancestors_and_self (parent p)).
        is_dir fs d \<or> (files fs d = None \<and> fault E OpMkdir d = None)) \<and>
    fault E OpOpen p = None \<and> fault E OpWrite p = None \<longrightarrow> fst (init E fs p) = Inr ()) \<and>
   (fst (init E fs p) = Inr () \<longrightarrow>
      is_dir (snd (init E fs p)) (parent p) \<and>
      dirs (snd (init E fs p)) = dirs fs \<union> set (ancestors_and_self (parent p)) \<and>
      files (snd (init E fs p)) =
        (if path_exists fs p then files fs else (files fs)(p \<mapsto> Text ''[]'')) \<and>
      (\<not> path_exists fs p \<and> fault E OpRead p = None \<and> json_loads E ''[]'' = Inr (PList []) \<longrightarrow>
         get_all E p (snd (init E fs p)) = Inr []) \<and>
      init E' (snd (init E fs p)) p = (Inr (), snd (init E fs p)))"
proof (intro conjI impI)
  assume "(\<forall>d\<in>set (ancestors_and_self (parent p)).
        is_dir fs d \<or> (files fs d = None \<and> fault E OpMkdir d = None)) \<and>
    fault E OpOpen p = None \<and> fault E OpWrite p = None"
  then show "fst (init E fs p) = Inr ()" using init_succeeds by blast
next
  assume ok: "fst (init E fs p) = Inr ()"
  show "is_dir (snd (init E fs p)) (parent p)"
    using self_ancestor [of "parent p"] by (auto simp: init_ok [OF ok] is_dir_def)
  show "dirs (snd (init E fs p)) = dirs fs \<union> set (ancestors_and_self (parent p))"
    by (simp add: init_ok [OF ok])
  show "files (snd (init E fs p)) =
        (if path_exists fs p then files fs else (files fs)(p \<mapsto> Text ''[]''))"
    by (simp add: init_ok [OF ok])
  show "init E' (snd (init E fs p)) p = (Inr (), snd (init E fs p))"
    by (rule init_again [OF ok])
next
  assume ok: "fst (init E fs p) = Inr ()"
    and "\<not> path_exists fs p \<and> fault E OpRead p = None \<and> json_loads E ''[]'' = Inr (PList [])"
  then show "get_all E p (snd (init E fs p)) = Inr []"
    using get_all_after_init by blast
qed

theorem init_creates_store_witness:
  "fst (init healthy empty_disk store_path) = Inr () \<and>
   is_dir (snd (init healthy empty_disk store_path)) [''home'', ''ada''] \<and>
   dirs (snd (init healthy empty_disk store_path)) = {[''home''], [''home'', ''ada'']} \<and>
   files (snd (init healthy empty_disk store_path)) = [store_path \<mapsto> Text ''[]''] \<and>
   get_all healthy store_path (snd (init healthy empty_disk store_path)) = Inr [] \<and>
   init no_copy (snd (init healthy empty_disk store_path)) store_path =
     (Inr (), snd (init healthy empty_disk store_path))"
proof -
  have anc: "ancestors_and_self (parent store_path) = [[''home''], [''home'', ''ada'']]"
    by code_simp
  have par: "parent store_path = [''home'', ''ada'']" by code_simp
  have a: "(\<forall>d\<in>set (ancestors_and_self (parent store_path)).
        is_dir empty_disk d \<or> (files empty_disk d = None \<and> fault healthy OpMkdir d = None)) \<and>
    fault healthy OpOpen store_path = None \<and> fault healthy OpWrite store_path = None"
    by (simp add: anc healthy_def empty_disk_def)
  have b: "\<not> path_exists empty_disk store_path \<and> fault healthy OpRead store_path = None \<and>
      json_loads healthy ''[]'' = Inr (PList [])"
  proof (intro conjI)
    show "\<not> path_exists empty_disk store_path"
      by (simp add: path_exists_def is_dir_def empty_disk_def store_path_def)
    show "fault healthy OpRead store_path = None" by (simp add: healthy_def)
    show "json_loads healthy ''[]'' = Inr (PList [])" unfolding healthy_def by code_simp
  qed
  note inst = init_creates_store [of store_path empty_disk healthy no_copy]
  from inst a have ok: "fst (init healthy empty_disk store_path) = Inr ()" by blast
  from inst ok b have
    d: "is_dir (snd (init healthy empty_disk store_path)) (parent store_path)"
    and ds: "dirs (snd (init healthy empty_disk store_path)) =
          dirs empty_disk \<union> set (ancestors_and_self (parent store_path))"
    and fs: "files (snd (init healthy empty_disk store_path)) =
          (if path_exists empty_disk store_path then files empty_disk
           else (files empty_disk)(store_path \<mapsto> Text ''[]''))"
    and g: "get_all healthy store_path (snd (init healthy empty_disk store_path)) = Inr []"
    and again: "init no_copy (snd (init healthy empty_disk store_path)) store_path =
          (Inr (), snd (init healthy empty_disk store_path))"
    by blast+
  from d have "is_dir (snd (init healthy empty_disk store_path)) [''home'', ''ada'']"
    by (simp add: par)
  moreover from ds have "dirs (snd (init healthy empty_disk store_path)) =
      {[''home''], [''home'', ''ada'']}"
    by (simp add: anc empty_disk_def)
  moreover from fs b have "files (snd (init healthy empty_disk store_path)) =
      [store_path \<mapsto> Text ''[]'']"
    by (simp add: empty_disk_def)
  ultimately show ?thesis using ok g again by simp
qed

end
